theory Spec2Isabelle
  imports Main
begin

section \<open>Price Notifier: the price-extraction-and-notification pipeline of app.py\<close>

text \<open>
  The development embeds the functions \<open>fetch_price\<close>, \<open>_twilio_client\<close>,
  \<open>_resolve_recipient\<close>, \<open>_get_from_number\<close>, \<open>send_whatsapp\<close>, \<open>delayed_whatsapp\<close> and
  \<open>notify\<close> of \<open>app.py\<close>. The libraries the code calls are inputs of the model:
  \<^item> \<open>requests.get\<close> is a function from the URL to what the call does (it raises, or it
    returns a response with a status code and a body);
  \<^item> the document built by \<open>BeautifulSoup(resp.content, "html.parser")\<close> is a record of
    the two things the code reads from it: the text of the first element with a given
    \<open>id\<close>, and the text of the whole document;
  \<^item> \<open>decouple.config\<close> is a record of the four settings read with \<open>default=None\<close>;
  \<^item> \<open>client.messages.create\<close> is a function from the message to either the error it
    raises or the message sid, and every call is recorded in a trace, as is every
    \<open>asyncio.sleep\<close>.
  Python's own \<open>str.strip\<close>, \<open>str.startswith\<close>, \<open>str.replace\<close>, the regular expression
  \<open>[\d,]+\.?\d*\<close>, \<open>float(...)\<close>, \<open><=\<close> on floats and the formatting of a float in an
  f-string are written out as functions.

  Characters are Isabelle's 8-bit \<open>char\<close>: the model covers text whose code points are
  below 256. In that range \<open>\d\<close> matches exactly \<open>0\<close> to \<open>9\<close>.
\<close>

subsection \<open>Characters and strings\<close>

definition is_digit :: "char \<Rightarrow> bool" where
  "is_digit c = (c \<in> set ''0123456789'')"

text \<open>\<open>str.isspace\<close> for code points below 256: TAB, LF, VT, FF, CR, the four separators
  0x1c to 0x1f, the space, NEL (0x85) and the no-break space (0xa0).\<close>

definition is_space :: "char \<Rightarrow> bool" where
  "is_space c = ((of_char c :: nat) \<in> {9, 10, 11, 12, 13, 28, 29, 30, 31, 32, 133, 160})"

text \<open>\<open>s.strip()\<close>: leading and trailing whitespace removed.\<close>

definition strip :: "string \<Rightarrow> string" where
  "strip s = rev (dropWhile is_space (rev (dropWhile is_space s)))"

text \<open>\<open>s.startswith(p)\<close>.\<close>

definition startswith :: "string \<Rightarrow> string \<Rightarrow> bool" where
  "startswith s p = (take (length p) s = p)"

text \<open>\<open>s.replace(",", "")\<close>.\<close>

definition remove_commas :: "string \<Rightarrow> string" where
  "remove_commas s = filter (\<lambda>c. c \<noteq> CHR '','') s"

text \<open>\<open>needle in s\<close> for strings.\<close>

fun contains :: "string \<Rightarrow> string \<Rightarrow> bool" where
  "contains [] needle = (needle = [])"
| "contains (c # cs) needle = (take (length needle) (c # cs) = needle \<or> contains cs needle)"

subsection \<open>Decimal numerals\<close>

definition digit_val :: "char \<Rightarrow> nat" where
  "digit_val c = of_char c - 48"

definition nat_of_digits :: "string \<Rightarrow> nat" where
  "nat_of_digits s = foldl (\<lambda>a c. 10 * a + digit_val c) 0 s"

definition digit_char :: "nat \<Rightarrow> char" where
  "digit_char d = ''0123456789'' ! d"

fun digits_of_nat :: "nat \<Rightarrow> string" where
  "digits_of_nat n = (if n < 10 then [digit_char n] else digits_of_nat (n div 10) @ [digit_char (n mod 10)])"

declare digits_of_nat.simps [simp del]

text \<open>The number of digits of \<open>n\<close> in base \<open>b\<close> (0 for 0): \<open>n.bit_length()\<close> for \<open>b = 2\<close>.\<close>

fun num_digits :: "nat \<Rightarrow> nat \<Rightarrow> nat" where
  "num_digits b n = (if n = 0 \<or> b < 2 then 0 else Suc (num_digits b (n div b)))"

declare num_digits.simps [simp del]

subsection \<open>Python floats\<close>

text \<open>
  A Python float is an IEEE 754 binary64 number. \<open>Finite m e\<close> is the number
  \<open>m * 2 ^ e\<close>. The floats of this program are never negative and never NaN: a price is
  read from digits without a sign, and the target price is validated with \<open>gt=0\<close>,
  which NaN fails.
\<close>

datatype pyfloat = Finite nat int | Infinity

text \<open>\<open>x <= y\<close> on floats.\<close>

fun float_le :: "pyfloat \<Rightarrow> pyfloat \<Rightarrow> bool" where
  "float_le x Infinity = True"
| "float_le Infinity (Finite m e) = False"
| "float_le (Finite m1 e1) (Finite m2 e2) =
     (m1 * 2 ^ nat (e1 - min e1 e2) \<le> m2 * 2 ^ nat (e2 - min e1 e2))"

text \<open>\<open>x > y\<close> on floats.\<close>

fun float_gt :: "pyfloat \<Rightarrow> pyfloat \<Rightarrow> bool" where
  "float_gt (Finite m e) Infinity = False"
| "float_gt Infinity Infinity = False"
| "float_gt Infinity (Finite m e) = True"
| "float_gt (Finite m1 e1) (Finite m2 e2) =
     (m1 * 2 ^ nat (e1 - min e1 e2) > m2 * 2 ^ nat (e2 - min e1 e2))"

text \<open>\<open>x == y\<close> on floats.\<close>

fun float_eq :: "pyfloat \<Rightarrow> pyfloat \<Rightarrow> bool" where
  "float_eq Infinity Infinity = True"
| "float_eq (Finite m e) Infinity = False"
| "float_eq Infinity (Finite m e) = False"
| "float_eq (Finite m1 e1) (Finite m2 e2) =
     (m1 * 2 ^ nat (e1 - min e1 e2) = m2 * 2 ^ nat (e2 - min e1 e2))"

text \<open>
  The binary64 number nearest to the fraction \<open>n / d\<close> (\<open>d > 0\<close>), ties to the even
  mantissa, as the correctly rounded \<open>float(...)\<close> gives it. With \<open>2 ^ e \<le> n / d < 2 ^ (e + 1)\<close>
  the result is a multiple of \<open>2 ^ p\<close>, where \<open>p = e - 52\<close> for a normal number and
  \<open>p = -1074\<close> for a subnormal one. A result of \<open>2 ^ 1024\<close> or more is infinity. The result
  is in canonical form: a mantissa below \<open>2 ^ 53\<close>, and of at least \<open>2 ^ 52\<close> unless
  \<open>p = -1074\<close>.
\<close>

definition binary64 :: "nat \<Rightarrow> nat \<Rightarrow> pyfloat" where
  "binary64 n d =
     (if n = 0 then Finite 0 (- 1074)
      else
        let b = int (num_digits 2 n) - int (num_digits 2 d);
            e = (if d * 2 ^ nat b \<le> n * 2 ^ nat (- b) then b else b - 1);
            p = max (e - 52) (- 1074);
            num = n * 2 ^ nat (- p);
            den = d * 2 ^ nat p;
            q = num div den;
            r = num mod den;
            m = (if 2 * r < den \<or> (2 * r = den \<and> even q) then q else q + 1)
        in if p > 971 then Infinity
           else if m = 2 ^ 53 then (if p = 971 then Infinity else Finite (2 ^ 52) (p + 1))
           else Finite m p)"

text \<open>
  \<open>float(s)\<close> for the strings this program passes to it: digits with at most one
  decimal point and no sign, exponent, underscore or surrounding space (lemma
  \<open>numeric_chars\<close> below). Such a string is a float literal exactly when it has a digit;
  \<open>None\<close> is the \<open>ValueError\<close>.
\<close>

definition py_float :: "string \<Rightarrow> pyfloat option" where
  "py_float s =
     (let ip = takeWhile is_digit s; rest = dropWhile is_digit s
      in case rest of
           [] \<Rightarrow> if ip = [] then None else Some (binary64 (nat_of_digits ip) 1)
         | c # fp \<Rightarrow>
             if c = CHR ''.'' \<and> list_all is_digit fp \<and> (ip \<noteq> [] \<or> fp \<noteq> [])
             then Some (binary64 (nat_of_digits (ip @ fp)) (10 ^ length fp))
             else None)"

text \<open>
  \<open>repr(x)\<close>, which is also what an f-string writes for a float: the shortest string of
  digits that reads back as \<open>x\<close>, the nearest to \<open>x\<close> among those of that length, laid out
  with a decimal point, or with an exponent when the decimal point would be more than 16
  places right of the first digit or more than 3 zeros left of it.

  \<open>candidates n d k i\<close> are the two numbers \<open>c * 10 ^ s\<close> with \<open>i\<close> significant digits
  around \<open>n / d\<close>, the nearer one first, where \<open>10 ^ k \<le> n / d < 10 ^ (k + 1)\<close> and
  \<open>s = k - (i - 1)\<close>.
\<close>

definition candidates :: "nat \<Rightarrow> nat \<Rightarrow> int \<Rightarrow> nat \<Rightarrow> (nat \<times> int) list" where
  "candidates n d k i =
     (let s = k - (int i - 1);
          num = n * 10 ^ nat (- s);
          den = d * 10 ^ nat s;
          lo = num div den;
          r = num mod den
      in if 2 * r < den \<or> (2 * r = den \<and> even lo) then [(lo, s), (lo + 1, s)]
         else [(lo + 1, s), (lo, s)])"

definition reads_back :: "pyfloat \<Rightarrow> nat \<times> int \<Rightarrow> bool" where
  "reads_back x cs = (binary64 (fst cs * 10 ^ nat (snd cs)) (10 ^ nat (- snd cs)) = x)"

text \<open>\<open>k\<close> with \<open>10 ^ k \<le> n / d < 10 ^ (k + 1)\<close>, for \<open>n > 0\<close>.\<close>

definition decimal_exponent :: "nat \<Rightarrow> nat \<Rightarrow> int" where
  "decimal_exponent n d =
     (let b = int (num_digits 10 n) - int (num_digits 10 d)
      in if d * 10 ^ nat b \<le> n * 10 ^ nat (- b) then b else b - 1)"

text \<open>The first candidate that reads back as \<open>x\<close>, going through the given numbers of
  significant digits in order.\<close>

fun shortest_from :: "pyfloat \<Rightarrow> nat \<Rightarrow> nat \<Rightarrow> int \<Rightarrow> nat list \<Rightarrow> (nat \<times> int) option" where
  "shortest_from x n d k [] = None"
| "shortest_from x n d k (i # is) =
     (case List.find (reads_back x) (candidates n d k i) of
        Some cs \<Rightarrow> Some cs
      | None \<Rightarrow> shortest_from x n d k is)"

text \<open>Seventeen significant digits always tell a binary64 number from its neighbours, so
  the nearest candidate with seventeen digits is taken when no shorter one reads back.\<close>

definition shortest_candidate :: "nat \<Rightarrow> nat \<Rightarrow> nat \<times> int" where
  "shortest_candidate n d =
     (let k = decimal_exponent n d
      in case shortest_from (binary64 n d) n d k [1, 2, 3, 4, 5, 6, 7, 8, 9, 10, 11, 12, 13, 14, 15, 16] of
           Some cs \<Rightarrow> cs
         | None \<Rightarrow> hd (candidates n d k 17))"

text \<open>The digits of the shortest representation of \<open>m * 2 ^ e\<close>, without trailing zeros,
  and the position of the decimal point relative to the first digit.\<close>

definition shortest_digits :: "nat \<Rightarrow> int \<Rightarrow> string \<times> int" where
  "shortest_digits m e =
     (let cs = shortest_candidate (m * 2 ^ nat e) (2 ^ nat (- e));
          ds = digits_of_nat (fst cs)
      in (rev (dropWhile (\<lambda>ch. ch = CHR ''0'') (rev ds)), snd cs + int (length ds)))"

definition format_float :: "string \<Rightarrow> int \<Rightarrow> string" where
  "format_float ds decpt =
     (if decpt \<le> - 4 \<or> decpt > 16 then
        (let x = decpt - 1;
             xs = digits_of_nat (nat \<bar>x\<bar>)
         in take 1 ds @ (if length ds > 1 then ''.'' @ drop 1 ds else [])
            @ ''e'' @ (if x < 0 then ''-'' else ''+'')
            @ (if length xs < 2 then ''0'' @ xs else xs))
      else if decpt \<le> 0 then ''0.'' @ replicate (nat (- decpt)) (CHR ''0'') @ ds
      else if int (length ds) \<le> decpt then ds @ replicate (nat decpt - length ds) (CHR ''0'') @ ''.0''
      else take (nat decpt) ds @ ''.'' @ drop (nat decpt) ds)"

definition float_repr :: "pyfloat \<Rightarrow> string" where
  "float_repr x =
     (case x of
        Infinity \<Rightarrow> ''inf''
      | Finite m e \<Rightarrow>
          if m = 0 then ''0.0''
          else format_float (fst (shortest_digits m e)) (snd (shortest_digits m e)))"

subsection \<open>The regular expression \<open>[\d,]+\.?\d*\<close>\<close>

definition is_num_char :: "char \<Rightarrow> bool" where
  "is_num_char c = (is_digit c \<or> c = CHR '','')"

text \<open>
  The match that starts at the head of \<open>s\<close>, and the text after it. Every quantifier is
  greedy and nothing after \<open>[\d,]+\<close> can fail, so there is no backtracking: the longest
  run of digits and commas, then a point if the next character is one, then the longest
  run of digits.
\<close>

definition match_here :: "string \<Rightarrow> string \<times> string" where
  "match_here s =
     (let run = takeWhile is_num_char s; rest = dropWhile is_num_char s
      in case rest of
           [] \<Rightarrow> (run, [])
         | c # rest' \<Rightarrow>
             if c = CHR ''.'' then (run @ ''.'' @ takeWhile is_digit rest', dropWhile is_digit rest')
             else (run, rest))"

text \<open>What \<open>\.?\d*\<close> matches at the head of \<open>rest\<close>.\<close>

definition frac_part :: "string \<Rightarrow> string" where
  "frac_part rest =
     (case rest of
        [] \<Rightarrow> []
      | c # r \<Rightarrow> if c = CHR ''.'' then ''.'' @ takeWhile is_digit r else [])"

text \<open>\<open>re.search(r"[\d,]+\.?\d*", s)\<close>, giving \<open>match.group(0)\<close>: the match at the leftmost
  position that has one, which is the first digit or comma.\<close>

definition re_search :: "string \<Rightarrow> string option" where
  "re_search s =
     (case dropWhile (\<lambda>c. \<not> is_num_char c) s of
        [] \<Rightarrow> None
      | c # cs \<Rightarrow> Some (fst (match_here (c # cs))))"

lemma match_here_rest_le:
  "length (snd (match_here s)) \<le> length (dropWhile is_num_char s)"
proof (cases "dropWhile is_num_char s")
  case Nil
  then show ?thesis by (simp add: match_here_def Let_def del: dropWhile_eq_Nil_conv)
next
  case (Cons c r)
  have "length (dropWhile is_digit r) \<le> length r"
    by (rule length_dropWhile_le)
  with Cons show ?thesis by (simp add: match_here_def Let_def)
qed

lemma match_here_shorter:
  assumes "is_num_char c"
  shows "length (snd (match_here (c # cs))) < Suc (length cs)"
proof -
  have "length (dropWhile is_num_char (c # cs)) \<le> length cs"
    using assms by (simp add: length_dropWhile_le)
  with match_here_rest_le [of "c # cs"] show ?thesis by simp
qed

lemma dropWhile_not_num_shorter:
  "dropWhile (\<lambda>c. \<not> is_num_char c) s = c # cs \<Longrightarrow> is_num_char c \<and> Suc (length cs) \<le> length s"
proof -
  assume h: "dropWhile (\<lambda>c. \<not> is_num_char c) s = c # cs"
  have "length (dropWhile (\<lambda>c. \<not> is_num_char c) s) \<le> length s"
    by (rule length_dropWhile_le)
  moreover have "is_num_char c"
    using h hd_dropWhile [of "\<lambda>c. \<not> is_num_char c" s] by force
  ultimately show ?thesis using h by simp
qed

text \<open>\<open>re.findall(r"[\d,]+\.?\d*", s)\<close>: the matches from left to right, each search
  starting where the match before it ended.\<close>

function re_findall :: "string \<Rightarrow> string list" where
  "re_findall s =
     (case dropWhile (\<lambda>c. \<not> is_num_char c) s of
        [] \<Rightarrow> []
      | c # cs \<Rightarrow> fst (match_here (c # cs)) # re_findall (snd (match_here (c # cs))))"
  by pat_completeness auto
termination
proof (relation "measure length")
  show "wf (measure length)" by simp
next
  fix s :: string and c cs
  assume "dropWhile (\<lambda>c. \<not> is_num_char c) s = c # cs"
  then have "is_num_char c" and "Suc (length cs) \<le> length s"
    using dropWhile_not_num_shorter by blast+
  then show "(snd (match_here (c # cs)), s) \<in> measure length"
    using match_here_shorter [of c cs] by simp
qed

declare re_findall.simps [simp del]

subsection \<open>The fetched page\<close>

text \<open>
  What the code reads from the parsed document: \<open>find_text soup pid\<close> is
  \<open>soup.find(id=pid)\<close> followed by \<open>get_text()\<close>, \<open>None\<close> when no element has that id, and
  \<open>get_text soup\<close> is \<open>soup.get_text()\<close>.
\<close>

record soup =
  find_text :: "string \<rightharpoonup> string"
  get_text :: string

datatype requests_exception = ConnectionError | Timeout | HTTPError nat

text \<open>What \<open>requests.get(url, headers=headers, timeout=20)\<close> does: it raises, or it returns a
  response with a status code and a body, here already parsed.\<close>

datatype get_outcome = Raises requests_exception | Response nat soup

datatype error =
    HTTPException nat string
  | RequestException requests_exception
  | TwilioRestException string

definition NoPriceFound :: error where
  "NoPriceFound = HTTPException 400 ''Could not parse price from page.''"

definition UnrecognizedFormat :: error where
  "UnrecognizedFormat = HTTPException 400 ''Price format not recognized.''"

definition ParseFailure :: error where
  "ParseFailure = HTTPException 400 ''Price parse failed.''"

definition price_ids :: "string list" where
  "price_ids = [''priceblock_ourprice'', ''priceblock_dealprice'', ''priceblock_saleprice'']"

text \<open>The \<open>for pid in (...)\<close> loop of \<open>fetch_price\<close>: the value of \<open>price_text\<close> after it.
  The loop leaves at the first element whose text is not empty, with that text stripped.\<close>

fun id_loop :: "soup \<Rightarrow> string list \<Rightarrow> string option" where
  "id_loop sp [] = None"
| "id_loop sp (pid # pids) =
     (case find_text sp pid of
        None \<Rightarrow> id_loop sp pids
      | Some t \<Rightarrow> if t \<noteq> [] then Some (strip t) else id_loop sp pids)"

text \<open>The text that the loop tests for an id, \<open>el and el.get_text()\<close>: empty when no
  element has the id.\<close>

definition element_text :: "soup \<Rightarrow> string \<Rightarrow> string" where
  "element_text sp pid = (case find_text sp pid of None \<Rightarrow> [] | Some t \<Rightarrow> t)"

text \<open>\<open>not x\<close> for an optional string: \<open>None\<close> and the empty string are false.\<close>

definition falsy :: "string option \<Rightarrow> bool" where
  "falsy x = (x = None \<or> x = Some [])"

text \<open>\<open>price_text\<close> after the fallback of lines 92 to 95.\<close>

definition price_text :: "soup \<Rightarrow> string option" where
  "price_text sp =
     (let t = id_loop sp price_ids
      in if falsy t then re_search (get_text sp) else t)"

text \<open>Lines 96 to 105 of \<open>fetch_price\<close>.\<close>

definition parse_price :: "string option \<Rightarrow> error + pyfloat" where
  "parse_price t =
     (if falsy t then Inl NoPriceFound
      else case re_findall (the t) of
             [] \<Rightarrow> Inl UnrecognizedFormat
           | tok # toks \<Rightarrow>
               (case py_float (remove_commas tok) of
                  None \<Rightarrow> Inl ParseFailure
                | Some p \<Rightarrow> Inr p))"

text \<open>\<open>resp.raise_for_status()\<close> raises for the statuses 400 to 599. The \<open>User-Agent\<close> header
  and the timeout are part of what \<open>http_get\<close> stands for.\<close>

definition fetch_price :: "(string \<Rightarrow> get_outcome) \<Rightarrow> string \<Rightarrow> error + pyfloat" where
  "fetch_price http_get url =
     (case http_get url of
        Raises ex \<Rightarrow> Inl (RequestException ex)
      | Response status_code sp \<Rightarrow>
          if 400 \<le> status_code \<and> status_code < 600
          then Inl (RequestException (HTTPError status_code))
          else parse_price (price_text sp))"

subsection \<open>Configuration and dispatch\<close>

text \<open>The settings read with \<open>config(name, default=None)\<close>.\<close>

record config =
  SID :: "string option"
  AUTH :: "string option"
  TO_WHATSAPP :: "string option"
  FROM_WHATSAPP :: "string option"

record message =
  account_sid :: string
  auth_token :: string
  body :: string
  from_ :: string
  to :: string

text \<open>The effects of a dispatch, in the order they happen.\<close>

datatype event = Sleep int | Create message

text \<open>The delivery attempts of a trace are its \<open>Create\<close> events.\<close>

fun is_create :: "event \<Rightarrow> bool" where
  "is_create (Create m) = True"
| "is_create (Sleep n) = False"

definition twilio_client :: "config \<Rightarrow> error + string \<times> string" where
  "twilio_client cfg =
     (if falsy (SID cfg) \<or> falsy (AUTH cfg)
      then Inl (HTTPException 500 ''Twilio credentials missing (SID/AUTH).'')
      else Inr (the (SID cfg), the (AUTH cfg)))"

definition RecipientMissing :: error where
  "RecipientMissing = HTTPException 400 ''Recipient WhatsApp number missing.''"

definition resolve_recipient :: "config \<Rightarrow> string option \<Rightarrow> error + string" where
  "resolve_recipient cfg send_to =
     (let to_number = (if falsy send_to then TO_WHATSAPP cfg else send_to)
      in if falsy to_number then Inl RecipientMissing
         else if \<not> startswith (the to_number) ''whatsapp:'' then Inr (''whatsapp:'' @ the to_number)
         else Inr (the to_number))"

definition get_from_number :: "config \<Rightarrow> error + string" where
  "get_from_number cfg =
     (if falsy (FROM_WHATSAPP cfg)
      then Inl (HTTPException 500 ''WhatsApp sender number missing (FROM_WHATSAPP).'')
      else Inr (the (FROM_WHATSAPP cfg)))"

text \<open>\<open>create\<close> is \<open>client.messages.create\<close>: the error it raises or the sid of the message.\<close>

definition send_whatsapp ::
  "config \<Rightarrow> (message \<Rightarrow> string + string) \<Rightarrow> string \<Rightarrow> string option \<Rightarrow> (error + string) \<times> event list" where
  "send_whatsapp cfg create bdy to_override =
     (case twilio_client cfg of
        Inl e \<Rightarrow> (Inl e, [])
      | Inr client \<Rightarrow>
          (case resolve_recipient cfg to_override of
             Inl e \<Rightarrow> (Inl e, [])
           | Inr to_number \<Rightarrow>
               (case get_from_number cfg of
                  Inl e \<Rightarrow> (Inl e, [])
                | Inr from_number \<Rightarrow>
                    (let msg = \<lparr>account_sid = fst client, auth_token = snd client,
                                 body = bdy, from_ = from_number, to = to_number\<rparr>
                     in case create msg of
                          Inl detail \<Rightarrow> (Inl (TwilioRestException detail), [Create msg])
                        | Inr message_sid \<Rightarrow> (Inr message_sid, [Create msg])))))"

definition delayed_whatsapp ::
  "config \<Rightarrow> (message \<Rightarrow> string + string) \<Rightarrow> string \<Rightarrow> int \<Rightarrow> string option \<Rightarrow> (error + string) \<times> event list" where
  "delayed_whatsapp cfg create bdy delay_minutes to_override =
     (let slept = (if delay_minutes \<noteq> 0 then [Sleep (delay_minutes * 60)] else []);
          sent = send_whatsapp cfg create bdy to_override
      in (fst sent, slept @ snd sent))"

subsection \<open>The endpoint\<close>

record NotifyRequest =
  url :: string
  target_price :: pyfloat
  delay_minutes :: int
  send_to :: "string option"

record response =
  status :: string
  sid :: "string option"
  price :: pyfloat
  triggered :: bool

definition alert_body :: "string \<Rightarrow> pyfloat \<Rightarrow> pyfloat \<Rightarrow> bool \<Rightarrow> string" where
  "alert_body u p t trig =
     ''Price alert for '' @ u @ [CHR 0x0A]
     @ ''Current price: '' @ float_repr p @ [CHR 0x0A]
     @ ''Target: '' @ float_repr t @ [CHR 0x0A]
     @ ''Triggered: '' @ (if trig then ''yes'' else ''no'')"

definition notify ::
  "(string \<Rightarrow> get_outcome) \<Rightarrow> config \<Rightarrow> (message \<Rightarrow> string + string) \<Rightarrow> NotifyRequest
     \<Rightarrow> (error + response) \<times> event list" where
  "notify http_get cfg create payload =
     (case fetch_price http_get (url payload) of
        Inl e \<Rightarrow> (Inl e, [])
      | Inr p \<Rightarrow>
          (let trig = float_le p (target_price payload);
               bdy = alert_body (url payload) p (target_price payload) trig
           in if trig then
                (case delayed_whatsapp cfg create bdy (delay_minutes payload) (send_to payload) of
                   (Inl e, evs) \<Rightarrow> (Inl e, evs)
                 | (Inr message_sid, evs) \<Rightarrow>
                     (Inr \<lparr>status = ''sent'', sid = Some message_sid, price = p, triggered = True\<rparr>, evs))
              else (Inr \<lparr>status = ''not_triggered'', sid = None, price = p, triggered = False\<rparr>, [])))"

subsection \<open>Example inputs\<close>

text \<open>A server that answers every request with the same status and document.\<close>

definition serve :: "nat \<Rightarrow> soup \<Rightarrow> string \<Rightarrow> get_outcome" where
  "serve status_code sp u = Response status_code sp"

text \<open>A document without any of the price elements.\<close>

definition plain_page :: "string \<Rightarrow> soup" where
  "plain_page txt = \<lparr>find_text = Map.empty, get_text = txt\<rparr>"

definition no_config :: config where
  "no_config = \<lparr>SID = None, AUTH = None, TO_WHATSAPP = None, FROM_WHATSAPP = None\<rparr>"

definition full_config :: config where
  "full_config = \<lparr>SID = Some ''AC1'', AUTH = Some ''token'',
     TO_WHATSAPP = Some ''+15550001'', FROM_WHATSAPP = Some ''whatsapp:+15550002''\<rparr>"

text \<open>A transport that accepts every message, and one that refuses every message.\<close>

definition accept :: "message \<Rightarrow> string + string" where
  "accept m = Inr ''SM1''"

definition reject :: "message \<Rightarrow> string + string" where
  "reject m = Inl ''HTTP 401 error''"

text \<open>A document with the given price elements and the given text.\<close>

definition element_page :: "(string \<times> string) list \<Rightarrow> string \<Rightarrow> soup" where
  "element_page els txt = \<lparr>find_text = map_of els, get_text = txt\<rparr>"

text \<open>Documents with price elements: a first element with only whitespace before an
  element of second priority, the same with an empty first element and with no first
  element, and an element without a number.\<close>

definition shadow_page :: soup where
  "shadow_page = element_page
     [(''priceblock_ourprice'', '' ''), (''priceblock_dealprice'', ''$5'')]
     '' Save 42 today$5''"

definition blank_page :: soup where
  "blank_page = element_page
     [(''priceblock_ourprice'', ''  ''), (''priceblock_saleprice'', ''$5'')]
     ''  now 7.50 $5''"

definition empty_first_page :: soup where
  "empty_first_page = element_page
     [(''priceblock_ourprice'', []), (''priceblock_dealprice'', ''$5'')]
     ''Save 42 today$5''"

definition missing_first_page :: soup where
  "missing_first_page = element_page
     [(''priceblock_dealprice'', ''$5'')]
     ''Save 42 today$5''"


text \<open>A request that times out.\<close>

definition timing_out :: "string \<Rightarrow> get_outcome" where
  "timing_out u = Raises Timeout"

text \<open>The address with the channel prefix, added when absent.\<close>

definition with_prefix :: "string \<Rightarrow> string" where
  "with_prefix s = (if startswith s ''whatsapp:'' then s else ''whatsapp:'' @ s)"

text \<open>The example of the specification: a page whose price element reads \<open>$19.99\<close>, and
  the alert for it against the target 20.00.\<close>

definition price_page :: soup where
  "price_page = element_page [(''priceblock_ourprice'', ''$19.99'')]
     ''Widget 3 pack $19.99 free delivery over 25''"

definition example_body :: "string \<Rightarrow> string" where
  "example_body u =
     ''Price alert for '' @ u @ [CHR 0x0A] @ ''Current price: 19.99'' @ [CHR 0x0A]
     @ ''Target: 20.0'' @ [CHR 0x0A] @ ''Triggered: yes''"

section \<open>Properties\<close>

subsection \<open>Evaluation on numerals\<close>

lemma digits_of_nat_small: "n < 10 \<Longrightarrow> digits_of_nat n = [digit_char n]"
  by (simp add: digits_of_nat.simps)

lemma digits_of_nat_large:
  "10 \<le> n \<Longrightarrow> digits_of_nat n = digits_of_nat (n div 10) @ [digit_char (n mod 10)]"
  by (subst digits_of_nat.simps) simp

lemma num_digits_zero: "num_digits b 0 = 0"
  by (simp add: num_digits.simps)

lemma num_digits_pos:
  "0 < n \<Longrightarrow> 2 \<le> b \<Longrightarrow> num_digits b n = Suc (num_digits b (n div b))"
  by (subst num_digits.simps) simp

lemmas eval_simps =
  digits_of_nat_small digits_of_nat_large num_digits_zero num_digits_pos digit_char_def

lemmas char_simps = is_num_char_def is_digit_def is_space_def

subsection \<open>Floats\<close>

lemma float_le_refl: "float_le x x"
  by (cases x) simp_all

lemma float_eq_le: "float_eq x y \<Longrightarrow> float_le x y"
  by (cases x; cases y) simp_all

lemma float_gt_not_le: "float_gt x y = (\<not> float_le x y)"
  by (cases x; cases y) (simp_all add: not_le)

subsection \<open>The first match\<close>

lemma re_findall_search:
  "re_findall s =
     (case re_search s of
        None \<Rightarrow> []
      | Some tok \<Rightarrow> tok # re_findall (snd (match_here (dropWhile (\<lambda>c. \<not> is_num_char c) s))))"
proof (cases "dropWhile (\<lambda>c. \<not> is_num_char c) s")
  case Nil
  then show ?thesis
    by (subst re_findall.simps) (simp add: re_search_def del: dropWhile_eq_Nil_conv)
next
  case (Cons c cs)
  then show ?thesis
    by (subst re_findall.simps) (simp add: re_search_def)
qed


lemma re_findall_Cons: "re_findall s = tok # toks \<Longrightarrow> re_search s = Some tok"
  by (subst (asm) re_findall_search) (simp split: option.splits)

lemma falsy_simps [simp]:
  "falsy None" "falsy (Some [])" "falsy (Some (c # cs)) = False"
  by (simp_all add: falsy_def)

lemma falsy_Some: "falsy (Some t) = (t = [])"
  by (simp add: falsy_def)

text \<open>\<open>numbers[0]\<close> is the first match, so lines 96 to 105 can be read off \<open>re.search\<close>.\<close>

lemma parse_price_search:
  "parse_price t =
     (if falsy t then Inl NoPriceFound
      else case re_search (the t) of
             None \<Rightarrow> Inl UnrecognizedFormat
           | Some tok \<Rightarrow>
               (case py_float (remove_commas tok) of
                  None \<Rightarrow> Inl ParseFailure
                | Some p \<Rightarrow> Inr p))"
  unfolding parse_price_def
  by (subst re_findall_search) (simp split: option.split)

lemma match_here_fst:
  "fst (match_here s) = takeWhile is_num_char s @ frac_part (dropWhile is_num_char s)"
proof (cases "dropWhile is_num_char s")
  case Nil
  then show ?thesis
    by (simp add: match_here_def frac_part_def Let_def del: dropWhile_eq_Nil_conv)
next
  case (Cons c r)
  then show ?thesis
    by (simp add: match_here_def frac_part_def Let_def)
qed

lemma not_num_dot: "\<not> is_num_char (CHR ''.'')"
  by (simp add: char_simps)

lemma digit_num: "is_digit c \<Longrightarrow> is_num_char c"
  by (simp add: is_num_char_def)

lemma takeWhile_num_token:
  "takeWhile is_num_char (takeWhile is_num_char s @ frac_part r) = takeWhile is_num_char s"
proof -
  have "takeWhile is_num_char (frac_part r) = []"
    by (simp add: frac_part_def not_num_dot split: list.split)
  moreover have "takeWhile is_num_char (takeWhile is_num_char s @ frac_part r)
      = takeWhile is_num_char s @ takeWhile is_num_char (frac_part r)"
    by (rule takeWhile_append2) (auto dest: set_takeWhileD)
  ultimately show ?thesis by simp
qed

lemma dropWhile_num_token:
  "dropWhile is_num_char (takeWhile is_num_char s @ frac_part r) = frac_part r"
proof -
  have "dropWhile is_num_char (frac_part r) = frac_part r"
    by (simp add: frac_part_def not_num_dot split: list.split)
  moreover have "dropWhile is_num_char (takeWhile is_num_char s @ frac_part r)
      = dropWhile is_num_char (frac_part r)"
    by (rule dropWhile_append2) (auto dest: set_takeWhileD)
  ultimately show ?thesis by simp
qed

lemma frac_part_idem: "frac_part (frac_part r) = frac_part r"
  by (simp add: frac_part_def split: list.split)

lemma match_here_idem: "fst (match_here (fst (match_here s))) = fst (match_here s)"
  by (simp add: match_here_fst takeWhile_num_token dropWhile_num_token frac_part_idem)

lemma re_search_Some_iff:
  "(re_search s = Some t) =
     (\<exists>c cs. dropWhile (\<lambda>c. \<not> is_num_char c) s = c # cs \<and> t = fst (match_here (c # cs)))"
proof (cases "dropWhile (\<lambda>c. \<not> is_num_char c) s")
  case Nil
  then show ?thesis
    by (simp add: re_search_def del: dropWhile_eq_Nil_conv)
next
  case (Cons c cs)
  then show ?thesis
    by (auto simp: re_search_def)
qed


lemma re_search_idem: "re_search s = Some t \<Longrightarrow> re_search t = Some t"
proof -
  assume "re_search s = Some t"
  then obtain c cs where d: "dropWhile (\<lambda>c. \<not> is_num_char c) s = c # cs"
    and t: "t = fst (match_here (c # cs))"
    by (auto simp: re_search_Some_iff)
  from d have c: "is_num_char c"
    using dropWhile_not_num_shorter by blast
  then obtain u where u: "t = c # u"
    using t by (simp add: match_here_fst)
  have "re_search t = Some (fst (match_here t))"
    using c u by (simp add: re_search_def)
  also have "fst (match_here t) = t"
    using t by (simp add: match_here_idem)
  finally show ?thesis .
qed

subsection \<open>Evaluating the examples\<close>

lemma id_loop_plain: "id_loop (plain_page txt) pids = None"
  by (induction pids) (simp_all add: plain_page_def)

lemma price_text_plain: "price_text (plain_page txt) = re_search txt"
  by (simp add: price_text_def id_loop_plain) (simp add: plain_page_def)

lemma fetch_serve:
  "fetch_price (serve st sp) u =
     (if 400 \<le> st \<and> st < 600 then Inl (RequestException (HTTPError st))
      else parse_price (price_text sp))"
  by (simp add: fetch_price_def serve_def)

lemma send_full_accept:
  "send_whatsapp full_config accept b None =
     (Inr ''SM1'', [Create \<lparr>account_sid = ''AC1'', auth_token = ''token'', body = b,
                             from_ = ''whatsapp:+15550002'', to = ''whatsapp:+15550001''\<rparr>])"
  by (simp add: send_whatsapp_def twilio_client_def resolve_recipient_def get_from_number_def
      full_config_def accept_def startswith_def)

lemma py_float_5: "py_float ''5'' = Some (binary64 5 1)"
  by (simp add: py_float_def is_digit_def nat_of_digits_def digit_val_def)

lemma fetch_plain_5: "fetch_price (serve 200 (plain_page ''5'')) u = Inr (binary64 5 1)"
proof -
  have "re_search ''5'' = Some ''5''"
    by (simp add: re_search_def match_here_def char_simps)
  then show ?thesis
    by (simp add: fetch_serve price_text_plain parse_price_search remove_commas_def py_float_5)
qed

lemma binary64_7_50: "binary64 750 100 = Finite 8444249301319680 (- 50)"
  by (simp add: binary64_def Let_def eval_simps)

lemma fetch_plain_7_50:
  "fetch_price (serve 200 (plain_page ''was 7.50 today'')) u = Inr (Finite 8444249301319680 (- 50))"
proof -
  have "re_search ''was 7.50 today'' = Some ''7.50''"
    by (simp add: re_search_def match_here_def char_simps)
  moreover have "py_float ''7.50'' = Some (binary64 750 100)"
    by (simp add: py_float_def is_digit_def nat_of_digits_def digit_val_def)
  moreover have "re_search ''7.50'' = Some ''7.50''"
    by (simp add: re_search_def match_here_def char_simps)
  ultimately show ?thesis
    by (simp add: fetch_serve price_text_plain parse_price_search remove_commas_def binary64_7_50)
qed

subsection \<open>Extraction\<close>


lemma id_loop_none:
  "(\<forall>pid \<in> set pids. element_text sp pid = []) \<Longrightarrow> id_loop sp pids = None"
  by (induction pids) (auto simp: element_text_def split: option.splits)

lemma id_loop_first:
  "i < length pids \<Longrightarrow> (\<forall>j<i. element_text sp (pids ! j) = []) \<Longrightarrow>
   element_text sp (pids ! i) \<noteq> [] \<Longrightarrow>
   id_loop sp pids = Some (strip (element_text sp (pids ! i)))"
proof (induction pids arbitrary: i)
  case Nil
  then show ?case by simp
next
  case (Cons pid pids)
  show ?case
  proof (cases i)
    case 0
    with Cons.prems show ?thesis
      by (auto simp: element_text_def split: option.splits)
  next
    case (Suc k)
    with Cons.prems have e: "element_text sp pid = []"
      by auto
    have "id_loop sp pids = Some (strip (element_text sp (pids ! k)))"
    proof (rule Cons.IH)
      show "k < length pids" using Cons.prems Suc by simp
      show "\<forall>j<k. element_text sp (pids ! j) = []"
        using Cons.prems(2) Suc by (metis Suc_less_eq nth_Cons_Suc)
      show "element_text sp (pids ! k) \<noteq> []" using Cons.prems Suc by simp
    qed
    with e Suc show ?thesis
      by (auto simp: element_text_def split: option.splits)
  qed
qed

lemma strip_all_space: "(\<forall>c \<in> set t. is_space c) \<Longrightarrow> strip t = []"
proof -
  assume "\<forall>c \<in> set t. is_space c"
  then have d: "dropWhile is_space t = []" by simp
  show ?thesis unfolding strip_def d by simp
qed




lemma fetch_response:
  "http_get u = Response st sp \<Longrightarrow> \<not> (400 \<le> st \<and> st < 600) \<Longrightarrow>
   fetch_price http_get u = parse_price (price_text sp)"
  by (auto simp: fetch_price_def)

lemma match_here_snd:
  "snd (match_here s) =
     (case dropWhile is_num_char s of
        [] \<Rightarrow> []
      | c # r \<Rightarrow> if c = CHR ''.'' then dropWhile is_digit r else c # r)"
proof (cases "dropWhile is_num_char s")
  case Nil
  then show ?thesis
    by (simp add: match_here_def Let_def del: dropWhile_eq_Nil_conv)
next
  case (Cons c r)
  then show ?thesis
    by (simp add: match_here_def Let_def)
qed

lemma match_here_append: "fst (match_here s) @ snd (match_here s) = s"
proof (cases "dropWhile is_num_char s")
  case Nil
  have "takeWhile is_num_char s @ dropWhile is_num_char s = s" by simp
  with Nil show ?thesis
    by (simp add: match_here_fst match_here_snd frac_part_def del: dropWhile_eq_Nil_conv takeWhile_dropWhile_id)
next
  case (Cons c r)
  have "takeWhile is_num_char s @ dropWhile is_num_char s = s" by simp
  moreover have "takeWhile is_digit r @ dropWhile is_digit r = r" by simp
  ultimately show ?thesis using Cons
    by (auto simp: match_here_fst match_here_snd frac_part_def simp del: takeWhile_dropWhile_id)
qed

lemma match_here_rest_no_digit: "snd (match_here s) = d # ds \<Longrightarrow> \<not> is_digit d"
proof (cases "dropWhile is_num_char s")
  case Nil
  assume "snd (match_here s) = d # ds"
  with Nil show ?thesis by (simp add: match_here_snd del: dropWhile_eq_Nil_conv)
next
  case (Cons c r)
  assume a: "snd (match_here s) = d # ds"
  have c: "\<not> is_num_char c"
    using Cons hd_dropWhile [of is_num_char s] by force
  show ?thesis
  proof (cases "c = CHR ''.''")
    case True
    with a Cons have "dropWhile is_digit r = d # ds" by (simp add: match_here_snd)
    then show ?thesis using hd_dropWhile [of is_digit r] by force
  next
    case False
    with a Cons have "d = c" by (simp add: match_here_snd)
    with c show ?thesis by (simp add: is_num_char_def)
  qed
qed

lemma frac_part_shape:
  "frac_part r = [] \<or> (\<exists>ds. frac_part r = CHR ''.'' # ds \<and> (\<forall>c \<in> set ds. is_digit c))"
  by (auto simp: frac_part_def split: list.split dest: set_takeWhileD)

lemma re_search_None: "(re_search s = None) = (\<forall>c \<in> set s. \<not> is_num_char c)"
proof (cases "dropWhile (\<lambda>c. \<not> is_num_char c) s")
  case Nil
  then have "\<forall>c \<in> set s. \<not> is_num_char c" by simp
  moreover from Nil have "re_search s = None"
    by (simp add: re_search_def del: dropWhile_eq_Nil_conv)
  ultimately show ?thesis by simp
next
  case (Cons c cs)
  then have "is_num_char c" and "c \<in> set s"
    using dropWhile_not_num_shorter apply blast
    using Cons set_dropWhileD [of c "\<lambda>c. \<not> is_num_char c" s] by simp
  moreover from Cons have "re_search s \<noteq> None"
    by (simp add: re_search_def)
  ultimately show ?thesis by auto
qed

lemma re_search_token:
  assumes "re_search s = Some t"
  shows "\<exists>pre run frac post. s = pre @ t @ post \<and> (\<forall>c \<in> set pre. \<not> is_num_char c)
           \<and> t = run @ frac \<and> run \<noteq> [] \<and> (\<forall>c \<in> set run. is_num_char c)
           \<and> (frac = [] \<or> (\<exists>ds. frac = CHR ''.'' # ds \<and> (\<forall>c \<in> set ds. is_digit c)))
           \<and> (\<forall>d ds. post = d # ds \<longrightarrow> \<not> is_digit d)"
proof -
  from assms obtain c cs where d: "dropWhile (\<lambda>c. \<not> is_num_char c) s = c # cs"
    and t: "t = fst (match_here (c # cs))"
    by (auto simp: re_search_Some_iff)
  let ?pre = "takeWhile (\<lambda>c. \<not> is_num_char c) s"
  let ?run = "takeWhile is_num_char (c # cs)"
  let ?frac = "frac_part (dropWhile is_num_char (c # cs))"
  let ?post = "snd (match_here (c # cs))"
  have c: "is_num_char c"
    using d dropWhile_not_num_shorter by blast
  have "s = ?pre @ (c # cs)"
    using d takeWhile_dropWhile_id [of "\<lambda>c. \<not> is_num_char c" s] by simp
  then have 1: "s = ?pre @ t @ ?post"
    using t match_here_append [of "c # cs"] by simp
  have 2: "\<forall>c \<in> set ?pre. \<not> is_num_char c"
    by (auto dest: set_takeWhileD)
  have 3: "t = ?run @ ?frac"
    using t by (simp add: match_here_fst)
  have 4: "?run \<noteq> []"
    using c by simp
  have 5: "\<forall>c \<in> set ?run. is_num_char c"
    by (auto dest: set_takeWhileD)
  have 6: "?frac = [] \<or> (\<exists>ds. ?frac = CHR ''.'' # ds \<and> (\<forall>c \<in> set ds. is_digit c))"
    by (rule frac_part_shape)
  have 7: "\<forall>d ds. ?post = d # ds \<longrightarrow> \<not> is_digit d"
    using match_here_rest_no_digit by blast
  from 1 2 3 4 5 6 7 show ?thesis by blast
qed

lemma price_text_first:
  assumes "i < length price_ids" and "\<forall>j<i. element_text sp (price_ids ! j) = []"
    and "element_text sp (price_ids ! i) \<noteq> []"
  shows "price_text sp =
           (if strip (element_text sp (price_ids ! i)) = [] then re_search (get_text sp)
            else Some (strip (element_text sp (price_ids ! i))))"
  using id_loop_first [OF assms] by (simp add: price_text_def falsy_Some)

lemma price_text_no_element:
  "(\<forall>pid \<in> set price_ids. element_text sp pid = []) \<Longrightarrow> price_text sp = re_search (get_text sp)"
  using id_loop_none [of price_ids sp] by (simp add: price_text_def)

lemma element_text_page:
  "element_text (element_page els txt) pid = (case map_of els pid of None \<Rightarrow> [] | Some t \<Rightarrow> t)"
  by (simp add: element_text_def element_page_def)

lemma get_text_page: "get_text (element_page els txt) = txt"
  by (simp add: element_page_def)

lemma serve_response: "serve st sp u = Response st sp"
  by (simp add: serve_def)

subsection \<open>Fetching and dispatch\<close>

lemma binary64_5: "binary64 5 1 = Finite 5629499534213120 (- 50)"
  by (simp add: binary64_def Let_def eval_simps)

lemma request_errors_distinct:
  "RequestException ex \<noteq> NoPriceFound" "RequestException ex \<noteq> UnrecognizedFormat"
  "RequestException ex \<noteq> ParseFailure"
  by (simp_all add: NoPriceFound_def UnrecognizedFormat_def ParseFailure_def)

lemma startswith_with_prefix: "startswith (with_prefix s) ''whatsapp:''"
  by (simp add: with_prefix_def startswith_def)

lemma resolve_recipient_cases:
  "resolve_recipient cfg override =
     (if \<not> falsy override then Inr (with_prefix (the override))
      else if \<not> falsy (TO_WHATSAPP cfg) then Inr (with_prefix (the (TO_WHATSAPP cfg)))
      else Inl RecipientMissing)"
  by (simp add: resolve_recipient_def with_prefix_def Let_def)

lemma send_whatsapp_no_recipient:
  "resolve_recipient cfg t = Inl e \<Longrightarrow>
   snd (send_whatsapp cfg create b t) = [] \<and> (\<exists>e'. fst (send_whatsapp cfg create b t) = Inl e')"
  by (simp add: send_whatsapp_def split: sum.split)

lemma send_whatsapp_recipient_error:
  "twilio_client cfg = Inr c \<Longrightarrow> resolve_recipient cfg t = Inl e \<Longrightarrow>
   fst (send_whatsapp cfg create b t) = Inl e"
  by (simp add: send_whatsapp_def)

lemma twilio_client_ok:
  "\<not> falsy (SID cfg) \<Longrightarrow> \<not> falsy (AUTH cfg) \<Longrightarrow> \<exists>c. twilio_client cfg = Inr c"
  by (simp add: twilio_client_def)

lemma send_whatsapp_trace:
  "snd (send_whatsapp cfg create b t) = [] \<or> (\<exists>m. snd (send_whatsapp cfg create b t) = [Create m])"
  by (simp add: send_whatsapp_def Let_def split: sum.split)

lemma send_whatsapp_configured:
  assumes "twilio_client cfg = Inr c" and "resolve_recipient cfg t = Inr r"
    and "get_from_number cfg = Inr f"
  shows "send_whatsapp cfg create b t =
           (case create \<lparr>account_sid = fst c, auth_token = snd c, body = b, from_ = f, to = r\<rparr> of
              Inl detail \<Rightarrow> Inl (TwilioRestException detail)
            | Inr message_sid \<Rightarrow> Inr message_sid,
            [Create \<lparr>account_sid = fst c, auth_token = snd c, body = b, from_ = f, to = r\<rparr>])"
  using assms by (simp add: send_whatsapp_def Let_def split: sum.split)

lemma send_whatsapp_unconfigured:
  "(\<exists>e. twilio_client cfg = Inl e) \<or> (\<exists>e. resolve_recipient cfg t = Inl e)
     \<or> (\<exists>e. get_from_number cfg = Inl e) \<Longrightarrow>
   snd (send_whatsapp cfg create b t) = []"
  by (auto simp: send_whatsapp_def split: sum.split)

lemma full_config_resolves:
  "twilio_client full_config = Inr (''AC1'', ''token'')"
  "resolve_recipient full_config None = Inr ''whatsapp:+15550001''"
  "get_from_number full_config = Inr ''whatsapp:+15550002''"
  by (simp_all add: twilio_client_def resolve_recipient_def get_from_number_def full_config_def
      startswith_def)

subsection \<open>Tokens and float literals\<close>


lemma not_digit_dot: "\<not> is_digit (CHR ''.'')"
  by (simp add: is_digit_def)

lemma not_digit_comma: "\<not> is_digit (CHR '','')"
  by (simp add: is_digit_def)

lemma py_float_shape:
  assumes "\<forall>c \<in> set ds. is_digit c"
    and "fr = [] \<or> (\<exists>fs. fr = CHR ''.'' # fs \<and> (\<forall>c \<in> set fs. is_digit c))"
  shows "(py_float (ds @ fr) = None) = (\<forall>c \<in> set (ds @ fr). \<not> is_digit c)"
proof -
  have t: "takeWhile is_digit (ds @ fr) = ds"
    using assms by (auto simp: takeWhile_append2 not_digit_dot)
  have d: "dropWhile is_digit (ds @ fr) = fr"
    using assms by (auto simp: dropWhile_append2 not_digit_dot)
  show ?thesis
  proof (cases fr)
    case Nil
    have t': "takeWhile is_digit ds = ds" and d': "dropWhile is_digit ds = []"
      using assms(1) by simp_all
    have "(py_float ds = None) = (ds = [])"
      unfolding py_float_def Let_def t' d' by simp
    also have "\<dots> = (\<forall>c \<in> set ds. \<not> is_digit c)"
      using assms(1) by (cases ds) auto
    finally show ?thesis using Nil by simp
  next
    case (Cons c fs)
    with assms(2) have c: "c = CHR ''.''" and fs: "\<forall>c \<in> set fs. is_digit c"
      by auto
    from fs have l: "list_all is_digit fs"
      by (simp add: list_all_iff)
    have t': "takeWhile is_digit (ds @ c # fs) = ds" and d': "dropWhile is_digit (ds @ c # fs) = c # fs"
      using t d Cons by simp_all
    have "(py_float (ds @ c # fs) = None) = (ds = [] \<and> fs = [])"
      unfolding py_float_def Let_def t' d' using c l by simp
    then have "(py_float (ds @ fr) = None) = (ds = [] \<and> fs = [])"
      using Cons by simp
    also have "\<dots> = (\<forall>c \<in> set (ds @ fr). \<not> is_digit c)"
    proof
      assume "ds = [] \<and> fs = []"
      then show "\<forall>c \<in> set (ds @ fr). \<not> is_digit c"
        using Cons c by (simp add: not_digit_dot)
    next
      assume n: "\<forall>c \<in> set (ds @ fr). \<not> is_digit c"
      have "ds = []"
      proof (cases ds)
        case Nil then show ?thesis .
      next
        case (Cons x xs)
        then have "is_digit x" and "\<not> is_digit x" using assms(1) n by auto
        then show ?thesis by simp
      qed
      moreover have "fs = []"
      proof (cases fs)
        case Nil then show ?thesis .
      next
        case (Cons x xs)
        then have "is_digit x" and "\<not> is_digit x" using fs n \<open>fr = c # fs\<close> by auto
        then show ?thesis by simp
      qed
      ultimately show "ds = [] \<and> fs = []" by simp
    qed
    finally show ?thesis .
  qed
qed

lemma remove_commas_run:
  assumes "\<forall>c \<in> set run. is_num_char c"
  shows "\<forall>c \<in> set (remove_commas run). is_digit c"
  using assms by (auto simp: remove_commas_def is_num_char_def)

lemma remove_commas_frac:
  assumes "fr = [] \<or> (\<exists>fs. fr = CHR ''.'' # fs \<and> (\<forall>c \<in> set fs. is_digit c))"
  shows "remove_commas fr = fr"
proof -
  have "\<forall>c \<in> set fr. c \<noteq> CHR '',''"
    using assms not_digit_comma by auto
  then show ?thesis
    by (simp add: remove_commas_def)
qed

lemma remove_commas_digits: "is_digit c \<Longrightarrow> (c \<in> set (remove_commas s)) = (c \<in> set s)"
  using not_digit_comma by (auto simp: remove_commas_def)

text \<open>A token is a non-empty run of digits and commas, then nothing or a point and digits.\<close>

lemma token_shape:
  assumes "re_findall t = tok # toks"
  shows "\<exists>run fr. tok = run @ fr \<and> run \<noteq> [] \<and> (\<forall>c \<in> set run. is_num_char c)
           \<and> (fr = [] \<or> (\<exists>fs. fr = CHR ''.'' # fs \<and> (\<forall>c \<in> set fs. is_digit c)))"
proof -
  have "re_search t = Some tok"
    using assms by (rule re_findall_Cons)
  from re_search_token [OF this] show ?thesis by blast
qed

text \<open>What reaches \<open>float\<close>: digits, then nothing or a point and digits.\<close>

lemma numeric_chars:
  assumes "re_findall t = tok # toks"
  shows "\<exists>ds fr. remove_commas tok = ds @ fr \<and> (\<forall>c \<in> set ds. is_digit c)
           \<and> (fr = [] \<or> (\<exists>fs. fr = CHR ''.'' # fs \<and> (\<forall>c \<in> set fs. is_digit c)))"
proof -
  from token_shape [OF assms] obtain run fr where tok: "tok = run @ fr"
    and run: "\<forall>c \<in> set run. is_num_char c"
    and fr: "fr = [] \<or> (\<exists>fs. fr = CHR ''.'' # fs \<and> (\<forall>c \<in> set fs. is_digit c))"
    by blast
  have "remove_commas tok = remove_commas run @ remove_commas fr"
    by (simp add: tok remove_commas_def)
  then have "remove_commas tok = remove_commas run @ fr"
    by (simp add: remove_commas_frac [OF fr])
  with remove_commas_run [OF run] fr show ?thesis by blast
qed

lemma py_float_token:
  assumes "re_findall t = tok # toks"
  shows "(py_float (remove_commas tok) = None) = (\<forall>c \<in> set tok. \<not> is_digit c)"
proof -
  from numeric_chars [OF assms] obtain ds fr where n: "remove_commas tok = ds @ fr"
    and ds: "\<forall>c \<in> set ds. is_digit c"
    and fr: "fr = [] \<or> (\<exists>fs. fr = CHR ''.'' # fs \<and> (\<forall>c \<in> set fs. is_digit c))"
    by blast
  have "(py_float (remove_commas tok) = None) = (\<forall>c \<in> set (remove_commas tok). \<not> is_digit c)"
    unfolding n using ds fr by (rule py_float_shape)
  also have "\<dots> = (\<forall>c \<in> set tok. \<not> is_digit c)"
    using not_digit_comma by (auto simp: remove_commas_def)
  finally show ?thesis .
qed

lemma all_commas: "(\<forall>c \<in> set xs. c = CHR '','') \<Longrightarrow> xs = replicate (length xs) (CHR '','')"
  by (induction xs) simp_all

lemma no_digit_token:
  assumes "re_findall t = tok # toks"
  shows "(\<forall>c \<in> set tok. \<not> is_digit c) =
           (\<exists>n. 0 < n \<and> (tok = replicate n (CHR '','') \<or> tok = replicate n (CHR '','') @ ''.''))"
proof
  assume nd: "\<forall>c \<in> set tok. \<not> is_digit c"
  from token_shape [OF assms] obtain run fr where tok: "tok = run @ fr" and ne: "run \<noteq> []"
    and run: "\<forall>c \<in> set run. is_num_char c"
    and fr: "fr = [] \<or> (\<exists>fs. fr = CHR ''.'' # fs \<and> (\<forall>c \<in> set fs. is_digit c))"
    by blast
  have "\<forall>c \<in> set run. c = CHR '',''"
    using run nd tok by (auto simp: is_num_char_def)
  then have r: "run = replicate (length run) (CHR '','')"
    by (rule all_commas)
  have f: "fr = [] \<or> fr = ''.''"
  proof (rule disjE [OF fr])
    assume "fr = []" then show ?thesis by simp
  next
    assume "\<exists>fs. fr = CHR ''.'' # fs \<and> (\<forall>c \<in> set fs. is_digit c)"
    then obtain fs where fs: "fr = CHR ''.'' # fs" "\<forall>c \<in> set fs. is_digit c" by blast
    have "fs = []"
    proof (cases fs)
      case Nil then show ?thesis .
    next
      case (Cons x xs)
      then have "is_digit x" and "\<not> is_digit x" using fs nd tok by auto
      then show ?thesis by simp
    qed
    with fs show ?thesis by simp
  qed
  from ne have l: "0 < length run" by simp
  from f tok have "tok = run \<or> tok = run @ ''.''" by auto
  with r have "tok = replicate (length run) (CHR '','')
      \<or> tok = replicate (length run) (CHR '','') @ ''.''"
    by simp
  with l show "\<exists>n. 0 < n \<and> (tok = replicate n (CHR '','') \<or> tok = replicate n (CHR '','') @ ''.'')"
    by (intro exI [of _ "length run"] conjI)
next
  assume "\<exists>n. 0 < n \<and> (tok = replicate n (CHR '','') \<or> tok = replicate n (CHR '','') @ ''.'')"
  then show "\<forall>c \<in> set tok. \<not> is_digit c"
    using not_digit_comma not_digit_dot by auto
qed

lemma re_findall_single:
  "re_search s = Some tok \<Longrightarrow> re_search (snd (match_here (dropWhile (\<lambda>c. \<not> is_num_char c) s))) = None
   \<Longrightarrow> re_findall s = [tok]"
  by (subst re_findall_search, subst re_findall_search) simp

subsection \<open>The example alert\<close>

lemma binary64_19_99: "binary64 1999 100 = Finite 5626684784446013 (- 48)"
  by (simp add: binary64_def Let_def eval_simps)

lemma binary64_20: "binary64 2000 100 = Finite 5629499534213120 (- 48)"
  by (simp add: binary64_def Let_def eval_simps)

lemma py_float_19_99: "py_float ''19.99'' = Some (Finite 5626684784446013 (- 48))"
proof -
  have "py_float ''19.99'' = Some (binary64 1999 100)"
    by (simp add: py_float_def is_digit_def nat_of_digits_def digit_val_def)
  then show ?thesis by (simp only: binary64_19_99)
qed

lemma float_repr_19_99: "float_repr (Finite 5626684784446013 (- 48)) = ''19.99''"
proof -
  let ?n = "5626684784446013 :: nat" and ?d = "281474976710656 :: nat"
  let ?x = "Finite 5626684784446013 (- 48)"
  have k: "decimal_exponent ?n ?d = 1"
    by (simp add: decimal_exponent_def eval_simps)
  have x: "binary64 ?n ?d = ?x"
    by (simp add: binary64_def Let_def eval_simps)
  have c1: "candidates ?n ?d 1 (Suc 0) = [(2, 1), (Suc 0, 1)]"
    by (simp add: candidates_def Let_def)
  have c2: "candidates ?n ?d 1 2 = [(20, 0), (19, 0)]"
    by (simp add: candidates_def Let_def)
  have c3: "candidates ?n ?d 1 3 = [(200, - 1), (199, - 1)]"
    by (simp add: candidates_def Let_def)
  have c4: "candidates ?n ?d 1 4 = [(1999, - 2), (1998, - 2)]"
    by (simp add: candidates_def Let_def)
  have r: "\<not> reads_back ?x (2, 1)" "\<not> reads_back ?x (Suc 0, 1)"
    "\<not> reads_back ?x (20, 0)" "\<not> reads_back ?x (19, 0)"
    "\<not> reads_back ?x (200, - 1)" "\<not> reads_back ?x (199, - 1)"
    "reads_back ?x (1999, - 2)"
    by (simp_all add: reads_back_def binary64_def Let_def eval_simps)
  have sc: "shortest_candidate ?n ?d = (1999, - 2)"
    by (simp add: shortest_candidate_def k x c1 c2 c3 c4 r)
  have sd: "shortest_digits 5626684784446013 (- 48) = (''1999'', 2)"
    by (simp add: shortest_digits_def sc eval_simps)
  show ?thesis
    by (simp add: float_repr_def sd format_float_def)
qed

lemma float_repr_20: "float_repr (Finite 5629499534213120 (- 48)) = ''20.0''"
proof -
  let ?n = "5629499534213120 :: nat" and ?d = "281474976710656 :: nat"
  let ?x = "Finite 5629499534213120 (- 48)"
  have k: "decimal_exponent ?n ?d = 1"
    by (simp add: decimal_exponent_def eval_simps)
  have x: "binary64 ?n ?d = ?x"
    by (simp add: binary64_def Let_def eval_simps)
  have c1: "candidates ?n ?d 1 (Suc 0) = [(2, 1), (3, 1)]"
    by (simp add: candidates_def Let_def)
  have r: "reads_back ?x (2, 1)"
    by (simp add: reads_back_def binary64_def Let_def eval_simps)
  have sc: "shortest_candidate ?n ?d = (2, 1)"
    by (simp add: shortest_candidate_def k x c1 r)
  have sd: "shortest_digits 5629499534213120 (- 48) = (''2'', 2)"
    by (simp add: shortest_digits_def sc eval_simps)
  show ?thesis
    by (simp add: float_repr_def sd format_float_def)
qed

lemma contains_append: "contains ys needle \<Longrightarrow> contains (xs @ ys) needle"
  by (induction xs) (cases ys, simp_all)

lemma example_body_contains:
  "contains (example_body u) ''19.99''" "contains (example_body u) ''20.0''"
proof -
  let ?tail = "[CHR 0x0A] @ ''Current price: 19.99'' @ [CHR 0x0A]
     @ ''Target: 20.0'' @ [CHR 0x0A] @ ''Triggered: yes''"
  have e: "example_body u = (''Price alert for '' @ u) @ ?tail"
    by (simp add: example_body_def)
  have "contains ?tail ''19.99''" by simp
  then show "contains (example_body u) ''19.99''"
    unfolding e by (rule contains_append)
  have "contains ?tail ''20.0''" by simp
  then show "contains (example_body u) ''20.0''"
    unfolding e by (rule contains_append)
qed

lemma alert_body_example:
  "alert_body u (Finite 5626684784446013 (- 48)) (Finite 5629499534213120 (- 48)) True
     = example_body u"
  by (simp add: alert_body_def example_body_def float_repr_19_99 float_repr_20)

lemma float_le_example:
  "float_le (Finite 5626684784446013 (- 48)) (Finite 5629499534213120 (- 48))"
  by simp

lemma parse_price_19_99: "parse_price (Some ''$19.99'') = Inr (Finite 5626684784446013 (- 48))"
proof -
  have "re_search ''$19.99'' = Some ''19.99''"
    by (simp add: re_search_def match_here_def char_simps)
  then show ?thesis
    by (simp add: parse_price_search remove_commas_def py_float_19_99)
qed

lemma strip_19_99: "strip ''$19.99'' = ''$19.99''"
  by (simp add: strip_def is_space_def)

lemma notify_creates_once:
  "length (filter is_create (snd (notify http_get cfg create payload))) \<le> 1"
  by (auto simp: notify_def Let_def delayed_whatsapp_def send_whatsapp_def
      split: sum.splits prod.splits)

lemma notify_created:
  assumes "fetch_price http_get (url payload) = Inr p"
    and "Create m \<in> set (snd (notify http_get cfg create payload))"
  shows "body m = alert_body (url payload) p (target_price payload) True"
  using assms
  by (auto simp: notify_def Let_def delayed_whatsapp_def send_whatsapp_def
      split: if_splits sum.splits prod.splits)

section \<open>The claims\<close>

text \<open>
  C1. The threshold decision is an inclusive comparison. For every price that
  \<open>fetch_price\<close> returns and every target price, \<open>notify\<close> takes the dispatch branch exactly
  when \<open>price <= target_price\<close>: then its outcome is the outcome of \<open>delayed_whatsapp\<close> on the
  alert body, wrapped in the \<open>sent\<close> response; otherwise it is the \<open>not_triggered\<close> response
  with no effect. The \<open>triggered\<close> field of every response is the value of the comparison,
  and a price equal to the target triggers.
\<close>

theorem threshold_inclusive:
  assumes "fetch_price http_get (url payload) = Inr p"
  shows "(float_le p (target_price payload) \<longrightarrow>
            notify http_get cfg create payload =
              (case delayed_whatsapp cfg create
                      (alert_body (url payload) p (target_price payload) True)
                      (delay_minutes payload) (send_to payload) of
                 (Inl e, evs) \<Rightarrow> (Inl e, evs)
               | (Inr message_sid, evs) \<Rightarrow>
                   (Inr \<lparr>status = ''sent'', sid = Some message_sid, price = p, triggered = True\<rparr>, evs)))
       \<and> (\<not> float_le p (target_price payload) \<longrightarrow>
            notify http_get cfg create payload =
              (Inr \<lparr>status = ''not_triggered'', sid = None, price = p, triggered = False\<rparr>, []))
       \<and> (\<forall>r. fst (notify http_get cfg create payload) = Inr r \<longrightarrow>
              triggered r = float_le p (target_price payload) \<and> price r = p)
       \<and> (float_eq p (target_price payload) \<longrightarrow> float_le p (target_price payload))"
  using assms
  by (auto simp: notify_def Let_def float_eq_le split: prod.splits sum.splits)

theorem threshold_inclusive_witness:
  "fetch_price (serve 200 (plain_page ''5'')) ''http://shop.test/a'' = Inr (binary64 5 1)
   \<and> float_eq (binary64 5 1) (binary64 5 1)
   \<and> notify (serve 200 (plain_page ''5'')) full_config accept
        \<lparr>url = ''http://shop.test/a'', target_price = binary64 5 1, delay_minutes = 0, send_to = None\<rparr>
      = (Inr \<lparr>status = ''sent'', sid = Some ''SM1'', price = binary64 5 1, triggered = True\<rparr>,
         [Create \<lparr>account_sid = ''AC1'', auth_token = ''token'',
                   body = alert_body ''http://shop.test/a'' (binary64 5 1) (binary64 5 1) True,
                   from_ = ''whatsapp:+15550002'', to = ''whatsapp:+15550001''\<rparr>])"
proof -
  let ?req = "\<lparr>url = ''http://shop.test/a'', target_price = binary64 5 1,
                delay_minutes = 0, send_to = None\<rparr>"
  have f: "fetch_price (serve 200 (plain_page ''5'')) (url ?req) = Inr (binary64 5 1)"
    by (simp add: fetch_plain_5)
  have e: "float_eq (binary64 5 1) (binary64 5 1)"
    by (cases "binary64 5 1") simp_all
  show ?thesis
    using threshold_inclusive [OF f, of full_config accept] e
    by (simp add: delayed_whatsapp_def send_full_accept fetch_plain_5)
qed

text \<open>
  C2. For every request whose extracted price is strictly greater than the target price,
  \<open>notify\<close> returns the response with \<open>triggered = False\<close>, status \<open>not_triggered\<close> and no
  message sid, and the trace of effects is empty: no sleep and no call of
  \<open>client.messages.create\<close>, whatever the configuration, the transport and the delay.
\<close>

theorem above_target_not_triggered:
  assumes "fetch_price http_get (url payload) = Inr p"
    and "float_gt p (target_price payload)"
  shows "notify http_get cfg create payload =
           (Inr \<lparr>status = ''not_triggered'', sid = None, price = p, triggered = False\<rparr>, [])"
  using assms by (simp add: notify_def Let_def float_gt_not_le)

theorem above_target_not_triggered_witness:
  "fetch_price (serve 200 (plain_page ''was 7.50 today'')) ''http://shop.test/b''
     = Inr (Finite 8444249301319680 (- 50))
   \<and> float_gt (Finite 8444249301319680 (- 50)) (Finite 5629499534213120 (- 50))
   \<and> notify (serve 200 (plain_page ''was 7.50 today'')) full_config accept
        \<lparr>url = ''http://shop.test/b'', target_price = Finite 5629499534213120 (- 50),
         delay_minutes = 10, send_to = None\<rparr>
      = (Inr \<lparr>status = ''not_triggered'', sid = None,
              price = Finite 8444249301319680 (- 50), triggered = False\<rparr>, [])"
proof -
  let ?req = "\<lparr>url = ''http://shop.test/b'', target_price = Finite 5629499534213120 (- 50),
                delay_minutes = 10, send_to = None\<rparr>"
  have f: "fetch_price (serve 200 (plain_page ''was 7.50 today'')) (url ?req)
             = Inr (Finite 8444249301319680 (- 50))"
    by (simp add: fetch_plain_7_50)
  have g: "float_gt (Finite 8444249301319680 (- 50)) (target_price ?req)"
    by simp
  show ?thesis
    using above_target_not_triggered [OF f g, of full_config accept]
    by (simp add: fetch_plain_7_50)
qed

text \<open>
  C8, as amended. The alert body is four lines separated by newlines, with the labels
  \<open>Price alert for\<close>, \<open>Current price:\<close>, \<open>Target:\<close> and \<open>Triggered:\<close> followed by the URL, the
  price, the target price and \<open>yes\<close> or \<open>no\<close>, and every message that \<open>notify\<close> hands to
  \<open>client.messages.create\<close> has that body (with \<open>yes\<close>). In particular, for a target price
  of 20.00 and a page whose first price element with non-empty text reads \<open>$19.99\<close>, the
  extracted price is the float that \<open>float("19.99")\<close> returns and that prints as \<open>19.99\<close>,
  the comparison with the target holds, and \<open>notify\<close> takes the dispatch branch with the body
  \<open>Current price: 19.99\<close>, \<open>Target: 20.0\<close>, \<open>Triggered: yes\<close>, which contains \<open>19.99\<close> and
  \<open>20.0\<close>. When the credentials, the recipient and the sender resolve, exactly one message
  is handed to \<open>client.messages.create\<close>, after the sleep if there is a delay, and it has
  this body; when one of them is missing, none is.
\<close>

theorem alert_body_format:
  assumes "i < length price_ids" and "\<forall>j<i. element_text sp (price_ids ! j) = []"
    and "element_text sp (price_ids ! i) = ''$19.99''"
    and "http_get (url payload) = Response st sp" and "\<not> (400 \<le> st \<and> st < 600)"
    and "target_price payload = binary64 2000 100"
  shows "(\<forall>u p t trig. alert_body u p t trig =
            ''Price alert for '' @ u @ [CHR 0x0A]
            @ ''Current price: '' @ float_repr p @ [CHR 0x0A]
            @ ''Target: '' @ float_repr t @ [CHR 0x0A]
            @ ''Triggered: '' @ (if trig then ''yes'' else ''no''))
       \<and> (\<forall>hg pl q m. fetch_price hg (url pl) = Inr q
              \<and> Create m \<in> set (snd (notify hg cfg create pl)) \<longrightarrow>
            body m = alert_body (url pl) q (target_price pl) True)
       \<and> fetch_price http_get (url payload) = Inr (Finite 5626684784446013 (- 48))
       \<and> py_float ''19.99'' = Some (Finite 5626684784446013 (- 48))
       \<and> float_repr (Finite 5626684784446013 (- 48)) = ''19.99''
       \<and> float_repr (target_price payload) = ''20.0''
       \<and> float_le (Finite 5626684784446013 (- 48)) (target_price payload)
       \<and> notify http_get cfg create payload =
           (case delayed_whatsapp cfg create (example_body (url payload))
                   (delay_minutes payload) (send_to payload) of
              (Inl e, evs) \<Rightarrow> (Inl e, evs)
            | (Inr message_sid, evs) \<Rightarrow>
                (Inr \<lparr>status = ''sent'', sid = Some message_sid,
                      price = Finite 5626684784446013 (- 48), triggered = True\<rparr>, evs))
       \<and> (\<forall>m. Create m \<in> set (snd (notify http_get cfg create payload)) \<longrightarrow>
            body m = example_body (url payload))
       \<and> length (filter is_create (snd (notify http_get cfg create payload))) \<le> 1
       \<and> (\<forall>c r f. twilio_client cfg = Inr c
              \<and> resolve_recipient cfg (send_to payload) = Inr r
              \<and> get_from_number cfg = Inr f \<longrightarrow>
            snd (notify http_get cfg create payload) =
              (if delay_minutes payload \<noteq> 0 then [Sleep (delay_minutes payload * 60)] else [])
              @ [Create \<lparr>account_sid = fst c, auth_token = snd c,
                         body = example_body (url payload), from_ = f, to = r\<rparr>])
       \<and> ((\<exists>e. twilio_client cfg = Inl e)
              \<or> (\<exists>e. resolve_recipient cfg (send_to payload) = Inl e)
              \<or> (\<exists>e. get_from_number cfg = Inl e) \<longrightarrow>
            filter is_create (snd (notify http_get cfg create payload)) = [])
       \<and> contains (example_body (url payload)) ''19.99''
       \<and> contains (example_body (url payload)) ''20.0''"
proof -
  let ?p = "Finite 5626684784446013 (- 48)"
  have t: "target_price payload = Finite 5629499534213120 (- 48)"
    using assms(6) by (simp only: binary64_20)
  have n: "element_text sp (price_ids ! i) \<noteq> []"
    using assms(3) by simp
  have "price_text sp = Some ''$19.99''"
    using price_text_first [OF assms(1,2) n] by (simp add: assms(3) strip_19_99)
  then have f: "fetch_price http_get (url payload) = Inr ?p"
    using fetch_response [where http_get = http_get and u = "url payload", OF assms(4,5)]
    by (simp add: parse_price_19_99)
  have le: "float_le ?p (target_price payload)"
    by (simp add: t)
  have b: "alert_body (url payload) ?p (target_price payload) True = example_body (url payload)"
    by (simp add: t alert_body_example)
  have 1: "\<forall>u p t trig. alert_body u p t trig =
            ''Price alert for '' @ u @ [CHR 0x0A]
            @ ''Current price: '' @ float_repr p @ [CHR 0x0A]
            @ ''Target: '' @ float_repr t @ [CHR 0x0A]
            @ ''Triggered: '' @ (if trig then ''yes'' else ''no'')"
    by (simp add: alert_body_def)
  have 2: "\<forall>hg pl q m. fetch_price hg (url pl) = Inr q
              \<and> Create m \<in> set (snd (notify hg cfg create pl)) \<longrightarrow>
            body m = alert_body (url pl) q (target_price pl) True"
    using notify_created by blast
  have 3: "notify http_get cfg create payload =
           (case delayed_whatsapp cfg create (example_body (url payload))
                   (delay_minutes payload) (send_to payload) of
              (Inl e, evs) \<Rightarrow> (Inl e, evs)
            | (Inr message_sid, evs) \<Rightarrow>
                (Inr \<lparr>status = ''sent'', sid = Some message_sid,
                      price = Finite 5626684784446013 (- 48), triggered = True\<rparr>, evs))"
    using f le b by (simp add: notify_def Let_def)
  have 4: "\<forall>m. Create m \<in> set (snd (notify http_get cfg create payload)) \<longrightarrow>
            body m = example_body (url payload)"
    using notify_created [OF f] b by simp
  have 5: "float_repr (target_price payload) = ''20.0''"
    by (simp add: t float_repr_20)
  have 6: "\<forall>c r f. twilio_client cfg = Inr c
              \<and> resolve_recipient cfg (send_to payload) = Inr r
              \<and> get_from_number cfg = Inr f \<longrightarrow>
            snd (notify http_get cfg create payload) =
              (if delay_minutes payload \<noteq> 0 then [Sleep (delay_minutes payload * 60)] else [])
              @ [Create \<lparr>account_sid = fst c, auth_token = snd c,
                         body = example_body (url payload), from_ = f, to = r\<rparr>]"
  proof (intro allI impI)
    fix c r f
    assume h: "twilio_client cfg = Inr c
              \<and> resolve_recipient cfg (send_to payload) = Inr r
              \<and> get_from_number cfg = Inr f"
    then have "snd (send_whatsapp cfg create (example_body (url payload)) (send_to payload))
        = [Create \<lparr>account_sid = fst c, auth_token = snd c,
                    body = example_body (url payload), from_ = f, to = r\<rparr>]"
      using send_whatsapp_configured [of cfg c "send_to payload" r f create
          "example_body (url payload)"]
      by simp
    then show "snd (notify http_get cfg create payload) =
              (if delay_minutes payload \<noteq> 0 then [Sleep (delay_minutes payload * 60)] else [])
              @ [Create \<lparr>account_sid = fst c, auth_token = snd c,
                         body = example_body (url payload), from_ = f, to = r\<rparr>]"
      by (simp add: 3 delayed_whatsapp_def Let_def split: sum.split)
  qed
  have 7: "(\<exists>e. twilio_client cfg = Inl e)
              \<or> (\<exists>e. resolve_recipient cfg (send_to payload) = Inl e)
              \<or> (\<exists>e. get_from_number cfg = Inl e) \<longrightarrow>
            filter is_create (snd (notify http_get cfg create payload)) = []"
  proof
    assume "(\<exists>e. twilio_client cfg = Inl e)
              \<or> (\<exists>e. resolve_recipient cfg (send_to payload) = Inl e)
              \<or> (\<exists>e. get_from_number cfg = Inl e)"
    then have "snd (send_whatsapp cfg create (example_body (url payload)) (send_to payload)) = []"
      by (rule send_whatsapp_unconfigured)
    then show "filter is_create (snd (notify http_get cfg create payload)) = []"
      by (simp add: 3 delayed_whatsapp_def Let_def split: sum.split)
  qed
  from 1 2 f py_float_19_99 float_repr_19_99 5 le 3 4 example_body_contains [of "url payload"]
    notify_creates_once [of http_get cfg create payload] 6 7
  show ?thesis by blast
qed

theorem alert_body_format_witness:
  "element_text price_page (price_ids ! 0) = ''$19.99''
   \<and> notify (serve 200 price_page) full_config accept
        \<lparr>url = ''https://example.test/item'', target_price = binary64 2000 100,
         delay_minutes = 0, send_to = None\<rparr>
      = (Inr \<lparr>status = ''sent'', sid = Some ''SM1'',
              price = Finite 5626684784446013 (- 48), triggered = True\<rparr>,
         [Create \<lparr>account_sid = ''AC1'', auth_token = ''token'',
                   body = ''Price alert for https://example.test/item'' @ [CHR 0x0A]
                          @ ''Current price: 19.99'' @ [CHR 0x0A]
                          @ ''Target: 20.0'' @ [CHR 0x0A] @ ''Triggered: yes'',
                   from_ = ''whatsapp:+15550002'', to = ''whatsapp:+15550001''\<rparr>])"
proof -
  let ?req = "\<lparr>url = ''https://example.test/item'', target_price = binary64 2000 100,
                delay_minutes = 0, send_to = None\<rparr>"
  have e0: "element_text price_page (price_ids ! 0) = ''$19.99''"
    by (simp add: price_page_def element_text_page price_ids_def)
  have i: "(0::nat) < length price_ids"
    by (simp add: price_ids_def)
  have b: "\<forall>j<0. element_text price_page (price_ids ! j) = []"
    by simp
  have s: "serve 200 price_page (url ?req) = Response 200 price_page"
    by (simp add: serve_def)
  have ok: "\<not> (400 \<le> (200::nat) \<and> (200::nat) < 600)" by simp
  have t: "target_price ?req = binary64 2000 100" by simp
  have d: "delayed_whatsapp full_config accept (example_body (url ?req)) (delay_minutes ?req)
             (send_to ?req)
           = (Inr ''SM1'', [Create \<lparr>account_sid = ''AC1'', auth_token = ''token'',
                body = example_body ''https://example.test/item'',
                from_ = ''whatsapp:+15550002'', to = ''whatsapp:+15550001''\<rparr>])"
    by (simp add: delayed_whatsapp_def send_full_accept)
  have "notify (serve 200 price_page) full_config accept ?req
      = (Inr \<lparr>status = ''sent'', sid = Some ''SM1'',
              price = Finite 5626684784446013 (- 48), triggered = True\<rparr>,
         [Create \<lparr>account_sid = ''AC1'', auth_token = ''token'',
                   body = example_body ''https://example.test/item'',
                   from_ = ''whatsapp:+15550002'', to = ''whatsapp:+15550001''\<rparr>])"
    using alert_body_format [where http_get = "serve 200 price_page" and payload = ?req
        and cfg = full_config and create = accept, OF i b e0 s ok t] d
    by simp
  then show ?thesis using e0 by (simp add: example_body_def)
qed

text \<open>
  The claim as the specification states it, a single delivered body for the example
  request, fails without credentials: the request triggers and nothing is delivered.
\<close>

theorem alert_body_format_counterexample:
  "notify (serve 200 price_page) no_config accept
     \<lparr>url = ''https://example.test/item'', target_price = binary64 2000 100,
      delay_minutes = 0, send_to = None\<rparr>
   = (Inl (HTTPException 500 ''Twilio credentials missing (SID/AUTH).''), [])"
proof -
  have s: "strip ''$19.99'' = ''$19.99''"
    by (rule strip_19_99)
  have l: "id_loop price_page price_ids = Some ''$19.99''"
    by (simp add: price_ids_def price_page_def element_page_def s)
  have t: "price_text price_page = Some ''$19.99''"
    by (simp add: price_text_def l)
  have f: "fetch_price (serve 200 price_page) ''https://example.test/item''
             = Inr (Finite 5626684784446013 (- 48))"
    by (simp add: fetch_serve t parse_price_19_99)
  have d: "delayed_whatsapp no_config accept b 0 None
             = (Inl (HTTPException 500 ''Twilio credentials missing (SID/AUTH).''), [])" for b
    by (simp add: delayed_whatsapp_def send_whatsapp_def twilio_client_def no_config_def)
  show ?thesis
    by (simp add: notify_def f binary64_20 d)
qed



text \<open>
  C3. The specification has the ids tried in priority order, the first one with non-empty
  text supplying the candidate, and the whole page scanned only when no id matches. The
  loop of \<open>fetch_price\<close> tests \<open>el.get_text()\<close> before it strips it, and leaves at the first
  element whose unstripped text is not empty. On a page whose \<open>priceblock_ourprice\<close> element
  holds a single space and whose \<open>priceblock_dealprice\<close> element holds \<open>$5\<close>, the loop ends
  with the empty string, the element of second priority is never read, the whole page is
  scanned although an id has a price, and the result is 42, a number of the surrounding
  text. On the same page with an empty first element, or without a first element, the loop
  goes on to \<open>priceblock_dealprice\<close> and the result is 5.
\<close>

theorem blank_first_element_hides_deal_price:
  "element_text shadow_page ''priceblock_ourprice'' = '' ''
   \<and> element_text shadow_page ''priceblock_dealprice'' = ''$5''
   \<and> id_loop shadow_page price_ids = Some []
   \<and> price_text shadow_page = Some ''42''
   \<and> fetch_price (serve 200 shadow_page) ''http://shop.test/g''
       = Inr (Finite 5910974510923776 (- 47))
   \<and> element_text empty_first_page ''priceblock_ourprice'' = []
   \<and> price_text empty_first_page = Some ''$5''
   \<and> fetch_price (serve 200 empty_first_page) ''http://shop.test/g''
       = Inr (Finite 5629499534213120 (- 50))
   \<and> price_text missing_first_page = Some ''$5''
   \<and> fetch_price (serve 200 missing_first_page) ''http://shop.test/g''
       = Inr (Finite 5629499534213120 (- 50))"
proof -
  have a: "element_text shadow_page ''priceblock_ourprice'' = '' ''"
    by (simp add: shadow_page_def element_text_page)
  have a': "element_text shadow_page ''priceblock_dealprice'' = ''$5''"
    by (simp add: shadow_page_def element_text_page)
  have s: "strip '' '' = []"
    by (simp add: strip_def is_space_def)
  have l: "id_loop shadow_page price_ids = Some []"
    by (simp add: price_ids_def shadow_page_def element_page_def s)
  have r: "re_search (get_text shadow_page) = Some ''42''"
    by (simp add: shadow_page_def get_text_page re_search_def match_here_def char_simps)
  have t: "price_text shadow_page = Some ''42''"
    by (simp add: price_text_def l r)
  have r42: "re_search ''42'' = Some ''42''"
    by (simp add: re_search_def match_here_def char_simps)
  have b42: "binary64 42 1 = Finite 5910974510923776 (- 47)"
    by (simp add: binary64_def Let_def eval_simps)
  have "py_float ''42'' = Some (binary64 42 1)"
    by (simp add: py_float_def is_digit_def nat_of_digits_def digit_val_def)
  then have f42: "py_float ''42'' = Some (Finite 5910974510923776 (- 47))"
    by (simp only: b42)
  have p42: "parse_price (Some ''42'') = Inr (Finite 5910974510923776 (- 47))"
    by (simp add: parse_price_search r42 remove_commas_def f42)
  have 1: "fetch_price (serve 200 shadow_page) ''http://shop.test/g''
       = Inr (Finite 5910974510923776 (- 47))"
    by (simp add: fetch_serve t p42)
  have s5: "strip ''$5'' = ''$5''"
    by (simp add: strip_def is_space_def)
  have r5: "re_search ''$5'' = Some ''5''"
    by (simp add: re_search_def match_here_def char_simps)
  have f5: "py_float ''5'' = Some (Finite 5629499534213120 (- 50))"
    using py_float_5 by (simp only: binary64_5)
  have p5: "parse_price (Some ''$5'') = Inr (Finite 5629499534213120 (- 50))"
    by (simp add: parse_price_search r5 remove_commas_def f5)
  have e: "element_text empty_first_page ''priceblock_ourprice'' = []"
    by (simp add: empty_first_page_def element_text_page)
  have le: "id_loop empty_first_page price_ids = Some ''$5''"
    by (simp add: price_ids_def empty_first_page_def element_page_def s5)
  have te: "price_text empty_first_page = Some ''$5''"
    by (simp add: price_text_def le)
  have 2: "fetch_price (serve 200 empty_first_page) ''http://shop.test/g''
       = Inr (Finite 5629499534213120 (- 50))"
    by (simp add: fetch_serve te p5)
  have lm: "id_loop missing_first_page price_ids = Some ''$5''"
    by (simp add: price_ids_def missing_first_page_def element_page_def s5)
  have tm: "price_text missing_first_page = Some ''$5''"
    by (simp add: price_text_def lm)
  have 3: "fetch_price (serve 200 missing_first_page) ''http://shop.test/g''
       = Inr (Finite 5629499534213120 (- 50))"
    by (simp add: fetch_serve tm p5)
  from a a' l t 1 e te 2 tm 3 show ?thesis by simp
qed

text \<open>
  C10. When the first id, in priority order, whose element has non-empty text has only
  whitespace as its text, the loop ends there with the empty string as candidate (nothing
  is assumed about the ids after it: they are not read), and the candidate is then taken
  from the scan of the whole page: the result of \<open>fetch_price\<close> is what lines 96 to 105 make
  of the first token of the page text.
\<close>

theorem whitespace_element_falls_back:
  assumes "i < length price_ids" and "\<forall>j<i. element_text sp (price_ids ! j) = []"
    and "element_text sp (price_ids ! i) \<noteq> []"
    and "\<forall>c \<in> set (element_text sp (price_ids ! i)). is_space c"
    and "http_get u = Response st sp" and "\<not> (400 \<le> st \<and> st < 600)"
  shows "id_loop sp price_ids = Some []
       \<and> price_text sp = re_search (get_text sp)
       \<and> fetch_price http_get u = parse_price (re_search (get_text sp))"
proof -
  have s: "strip (element_text sp (price_ids ! i)) = []"
    using assms(4) by (rule strip_all_space)
  have "id_loop sp price_ids = Some []"
    using id_loop_first [OF assms(1,2,3)] s by simp
  moreover have "price_text sp = re_search (get_text sp)"
    using price_text_first [OF assms(1,2,3)] s by simp
  moreover have "fetch_price http_get u = parse_price (price_text sp)"
    using assms(5,6) by (rule fetch_response)
  ultimately show ?thesis by simp
qed

theorem whitespace_element_falls_back_witness:
  "element_text blank_page (price_ids ! 0) = ''  ''
   \<and> id_loop blank_page price_ids = Some []
   \<and> price_text blank_page = Some ''7.50''
   \<and> fetch_price (serve 200 blank_page) ''http://shop.test/d'' = Inr (Finite 8444249301319680 (- 50))"
proof -
  have e0: "element_text blank_page (price_ids ! 0) = ''  ''"
    by (simp add: blank_page_def element_text_page price_ids_def)
  have i: "(0::nat) < length price_ids"
    by (simp add: price_ids_def)
  have b: "\<forall>j<0. element_text blank_page (price_ids ! j) = []"
    by simp
  have n: "element_text blank_page (price_ids ! 0) \<noteq> []"
    using e0 by simp
  have w: "\<forall>c \<in> set (element_text blank_page (price_ids ! 0)). is_space c"
    using e0 by (simp add: is_space_def)
  have ok: "\<not> (400 \<le> (200::nat) \<and> (200::nat) < 600)" by simp
  have r: "re_search (get_text blank_page) = Some ''7.50''"
    by (simp add: blank_page_def get_text_page re_search_def match_here_def char_simps)
  have r2: "re_search ''7.50'' = Some ''7.50''"
    using r by (rule re_search_idem)
  have f: "py_float ''7.50'' = Some (binary64 750 100)"
    by (simp add: py_float_def is_digit_def nat_of_digits_def digit_val_def)
  have p: "parse_price (Some ''7.50'') = Inr (Finite 8444249301319680 (- 50))"
    by (simp add: parse_price_search r2 remove_commas_def f binary64_7_50)
  from whitespace_element_falls_back
         [where http_get = "serve 200 blank_page" and u = "''http://shop.test/d''",
          OF i b n w serve_response ok] r p e0
  show ?thesis by simp
qed

text \<open>
  C5, as amended. When \<open>requests.get\<close> raises (no connection, timeout), or returns a
  response whose status is in 400 to 599, \<open>fetch_price\<close> ends with the exception of the
  requests library (for a status, \<open>HTTPError\<close> carrying it) whatever the body is, so no
  extraction step has run; the exception is none of the three extraction errors, and
  \<open>notify\<close> ends with it without any effect. A response with any other status, 1xx and
  3xx included, is not a failure: its body goes through extraction.
\<close>

theorem fetch_failure:
  "(\<forall>ex. http_get u = Raises ex \<longrightarrow> fetch_price http_get u = Inl (RequestException ex))
   \<and> (\<forall>st sp. http_get u = Response st sp \<and> 400 \<le> st \<and> st < 600 \<longrightarrow>
         fetch_price http_get u = Inl (RequestException (HTTPError st)))
   \<and> (\<forall>st sp. http_get u = Response st sp \<and> \<not> (400 \<le> st \<and> st < 600) \<longrightarrow>
         fetch_price http_get u = parse_price (price_text sp))
   \<and> (\<forall>ex. fetch_price http_get (url payload) = Inl (RequestException ex) \<longrightarrow>
         notify http_get cfg create payload = (Inl (RequestException ex), []))
   \<and> (\<forall>ex. RequestException ex \<noteq> NoPriceFound \<and> RequestException ex \<noteq> UnrecognizedFormat
         \<and> RequestException ex \<noteq> ParseFailure)"
proof -
  have a: "\<forall>ex. http_get u = Raises ex \<longrightarrow> fetch_price http_get u = Inl (RequestException ex)"
    by (simp add: fetch_price_def)
  have b: "\<forall>st sp. http_get u = Response st sp \<and> 400 \<le> st \<and> st < 600 \<longrightarrow>
         fetch_price http_get u = Inl (RequestException (HTTPError st))"
    by (simp add: fetch_price_def)
  have c: "\<forall>st sp. http_get u = Response st sp \<and> \<not> (400 \<le> st \<and> st < 600) \<longrightarrow>
         fetch_price http_get u = parse_price (price_text sp)"
    using fetch_response by blast
  have d: "\<forall>ex. fetch_price http_get (url payload) = Inl (RequestException ex) \<longrightarrow>
         notify http_get cfg create payload = (Inl (RequestException ex), [])"
    by (simp add: notify_def)
  from a b c d request_errors_distinct show ?thesis
    by blast
qed

theorem fetch_failure_witness:
  "fetch_price timing_out ''http://shop.test/e'' = Inl (RequestException Timeout)
   \<and> fetch_price (serve 404 (plain_page ''5'')) ''http://shop.test/e''
       = Inl (RequestException (HTTPError 404))
   \<and> notify (serve 404 (plain_page ''5'')) full_config accept
        \<lparr>url = ''http://shop.test/e'', target_price = Finite 5629499534213120 (- 50),
         delay_minutes = 0, send_to = None\<rparr>
       = (Inl (RequestException (HTTPError 404)), [])"
proof -
  let ?u = "''http://shop.test/e''"
  let ?req = "\<lparr>url = ?u, target_price = Finite 5629499534213120 (- 50),
                delay_minutes = 0, send_to = None\<rparr>"
  have t: "timing_out ?u = Raises Timeout"
    by (simp add: timing_out_def)
  have s: "serve 404 (plain_page ''5'') (url ?req) = Response 404 (plain_page ''5'')
           \<and> (400::nat) \<le> 404 \<and> (404::nat) < 600"
    by (simp add: serve_def)
  have 1: "fetch_price timing_out ?u = Inl (RequestException Timeout)"
    using fetch_failure [of timing_out ?u] t by blast
  have 2: "fetch_price (serve 404 (plain_page ''5'')) (url ?req) = Inl (RequestException (HTTPError 404))"
    using fetch_failure [of "serve 404 (plain_page ''5'')" "url ?req"] s by blast
  have 3: "notify (serve 404 (plain_page ''5'')) full_config accept ?req
       = (Inl (RequestException (HTTPError 404)), [])"
    using fetch_failure [of "serve 404 (plain_page ''5'')" "url ?req" ?req full_config accept] 2
    by blast
  from 1 2 3 show ?thesis by simp
qed

text \<open>
  The claim as the specification states it, with a non-2xx status as a fetch failure,
  fails for status 300: the body is parsed and its price returned.
\<close>

theorem fetch_failure_counterexample:
  "fetch_price (serve 300 (plain_page ''5'')) ''http://shop.test/f''
     = Inr (Finite 5629499534213120 (- 50))"
proof -
  have "re_search ''5'' = Some ''5''"
    by (simp add: re_search_def match_here_def char_simps)
  then have "fetch_price (serve 300 (plain_page ''5'')) ''http://shop.test/f'' = Inr (binary64 5 1)"
    by (simp add: fetch_serve price_text_plain parse_price_search remove_commas_def py_float_5)
  then show ?thesis
    by (simp only: binary64_5)
qed

text \<open>
  C6, as amended. \<open>_resolve_recipient\<close> uses the per-request override when it is a non-empty
  string, otherwise the configured \<open>TO_WHATSAPP\<close> when that is a non-empty string. When
  neither is one, it raises \<open>RecipientMissing\<close>, and \<open>send_whatsapp\<close> fails without any call of
  \<open>client.messages.create\<close>; the error of \<open>send_whatsapp\<close> is \<open>RecipientMissing\<close> when the
  credentials are configured, which it checks first. A resolved address always starts with
  \<open>whatsapp:\<close>, which is added exactly when the chosen address does not start with it.
\<close>

theorem recipient_resolution:
  "(\<forall>s. override = Some s \<and> s \<noteq> [] \<longrightarrow>
       resolve_recipient cfg override =
         Inr (if startswith s ''whatsapp:'' then s else ''whatsapp:'' @ s))
   \<and> (\<forall>s. (override = None \<or> override = Some []) \<and> TO_WHATSAPP cfg = Some s \<and> s \<noteq> [] \<longrightarrow>
       resolve_recipient cfg override =
         Inr (if startswith s ''whatsapp:'' then s else ''whatsapp:'' @ s))
   \<and> ((override = None \<or> override = Some [])
        \<and> (TO_WHATSAPP cfg = None \<or> TO_WHATSAPP cfg = Some []) \<longrightarrow>
       resolve_recipient cfg override = Inl RecipientMissing
       \<and> snd (send_whatsapp cfg create b override) = []
       \<and> (\<exists>e. fst (send_whatsapp cfg create b override) = Inl e)
       \<and> (\<forall>c. twilio_client cfg = Inr c \<longrightarrow>
             fst (send_whatsapp cfg create b override) = Inl RecipientMissing))
   \<and> (\<forall>r. resolve_recipient cfg override = Inr r \<longrightarrow> startswith r ''whatsapp:'')"
proof -
  have a: "\<forall>s. override = Some s \<and> s \<noteq> [] \<longrightarrow>
       resolve_recipient cfg override =
         Inr (if startswith s ''whatsapp:'' then s else ''whatsapp:'' @ s)"
    by (auto simp: resolve_recipient_cases with_prefix_def falsy_def)
  have b: "\<forall>s. (override = None \<or> override = Some []) \<and> TO_WHATSAPP cfg = Some s \<and> s \<noteq> [] \<longrightarrow>
       resolve_recipient cfg override =
         Inr (if startswith s ''whatsapp:'' then s else ''whatsapp:'' @ s)"
    by (auto simp: resolve_recipient_cases with_prefix_def falsy_def)
  have c: "(override = None \<or> override = Some [])
        \<and> (TO_WHATSAPP cfg = None \<or> TO_WHATSAPP cfg = Some []) \<longrightarrow>
       resolve_recipient cfg override = Inl RecipientMissing
       \<and> snd (send_whatsapp cfg create b override) = []
       \<and> (\<exists>e. fst (send_whatsapp cfg create b override) = Inl e)
       \<and> (\<forall>c. twilio_client cfg = Inr c \<longrightarrow>
             fst (send_whatsapp cfg create b override) = Inl RecipientMissing)"
  proof
    assume h: "(override = None \<or> override = Some [])
        \<and> (TO_WHATSAPP cfg = None \<or> TO_WHATSAPP cfg = Some [])"
    then have r: "resolve_recipient cfg override = Inl RecipientMissing"
      by (auto simp: resolve_recipient_cases falsy_def)
    with send_whatsapp_no_recipient [OF r, of create b]
      send_whatsapp_recipient_error [OF _ r, of _ create b]
    show "resolve_recipient cfg override = Inl RecipientMissing
       \<and> snd (send_whatsapp cfg create b override) = []
       \<and> (\<exists>e. fst (send_whatsapp cfg create b override) = Inl e)
       \<and> (\<forall>c. twilio_client cfg = Inr c \<longrightarrow>
             fst (send_whatsapp cfg create b override) = Inl RecipientMissing)"
      by blast
  qed
  have d: "\<forall>r. resolve_recipient cfg override = Inr r \<longrightarrow> startswith r ''whatsapp:''"
    by (auto simp: resolve_recipient_cases startswith_with_prefix split: if_splits)
  from a b c d show ?thesis by blast
qed

theorem recipient_resolution_witness:
  "resolve_recipient full_config (Some ''+15551234'') = Inr ''whatsapp:+15551234''
   \<and> resolve_recipient full_config (Some ''whatsapp:+15551234'') = Inr ''whatsapp:+15551234''
   \<and> resolve_recipient full_config None = Inr ''whatsapp:+15550001''
   \<and> send_whatsapp (full_config\<lparr>TO_WHATSAPP := None\<rparr>) accept ''alert'' None
       = (Inl RecipientMissing, [])"
proof -
  let ?cfg = "full_config\<lparr>TO_WHATSAPP := None\<rparr>"
  have 1: "resolve_recipient full_config (Some ''+15551234'') = Inr ''whatsapp:+15551234''"
    using recipient_resolution [of "Some ''+15551234''" full_config]
    by (simp add: startswith_def)
  have 2: "resolve_recipient full_config (Some ''whatsapp:+15551234'') = Inr ''whatsapp:+15551234''"
    using recipient_resolution [of "Some ''whatsapp:+15551234''" full_config]
    by (simp add: startswith_def)
  have 3: "resolve_recipient full_config None = Inr ''whatsapp:+15550001''"
    using recipient_resolution [of None full_config]
    by (simp add: startswith_def full_config_def)
  have c: "twilio_client ?cfg = Inr (''AC1'', ''token'')"
    by (simp add: twilio_client_def full_config_def)
  have t: "TO_WHATSAPP ?cfg = None"
    by simp
  have 4: "send_whatsapp ?cfg accept ''alert'' None = (Inl RecipientMissing, [])"
    using recipient_resolution [of None ?cfg accept "''alert''"] c t
    by (metis prod.collapse)
  from 1 2 3 4 show ?thesis by simp
qed

text \<open>
  The claim as the specification states it fails twice: an override that is present but
  empty is not used, and with neither recipient nor credentials the dispatch fails with
  the credentials error, not with \<open>RecipientMissing\<close>.
\<close>

theorem recipient_resolution_counterexample:
  "resolve_recipient full_config (Some []) = Inr ''whatsapp:+15550001''
   \<and> send_whatsapp no_config accept ''alert'' None
       = (Inl (HTTPException 500 ''Twilio credentials missing (SID/AUTH).''), [])
   \<and> HTTPException 500 ''Twilio credentials missing (SID/AUTH).'' \<noteq> RecipientMissing"
  by (simp add: resolve_recipient_cases with_prefix_def startswith_def full_config_def
      send_whatsapp_def twilio_client_def no_config_def RecipientMissing_def)

text \<open>
  C7, as amended. With \<open>delay_minutes > 0\<close>, \<open>delayed_whatsapp\<close> first sleeps
  \<open>delay_minutes * 60\<close> seconds and then runs \<open>send_whatsapp\<close>; with \<open>delay_minutes = 0\<close> it runs
  \<open>send_whatsapp\<close> at once, without a sleep. \<open>send_whatsapp\<close> calls \<open>client.messages.create\<close> at
  most once: exactly once when the credentials, the recipient and the sender resolve,
  also when the call fails (its error is returned, nothing is retried), and not at all
  when one of them is missing.
\<close>

theorem delay_semantics:
  "(0 < d \<longrightarrow> snd (delayed_whatsapp cfg create b d t)
                 = Sleep (d * 60) # snd (send_whatsapp cfg create b t))
   \<and> (d = 0 \<longrightarrow> snd (delayed_whatsapp cfg create b d t) = snd (send_whatsapp cfg create b t))
   \<and> fst (delayed_whatsapp cfg create b d t) = fst (send_whatsapp cfg create b t)
   \<and> (snd (send_whatsapp cfg create b t) = []
        \<or> (\<exists>m. snd (send_whatsapp cfg create b t) = [Create m]))
   \<and> (\<forall>c r f. twilio_client cfg = Inr c \<and> resolve_recipient cfg t = Inr r
          \<and> get_from_number cfg = Inr f \<longrightarrow>
        send_whatsapp cfg create b t =
          (case create \<lparr>account_sid = fst c, auth_token = snd c, body = b, from_ = f, to = r\<rparr> of
             Inl detail \<Rightarrow> Inl (TwilioRestException detail)
           | Inr message_sid \<Rightarrow> Inr message_sid,
           [Create \<lparr>account_sid = fst c, auth_token = snd c, body = b, from_ = f, to = r\<rparr>]))
   \<and> ((\<exists>e. twilio_client cfg = Inl e) \<or> (\<exists>e. resolve_recipient cfg t = Inl e)
          \<or> (\<exists>e. get_from_number cfg = Inl e) \<longrightarrow>
        snd (send_whatsapp cfg create b t) = [])"
proof -
  have a: "0 < d \<longrightarrow> snd (delayed_whatsapp cfg create b d t)
                 = Sleep (d * 60) # snd (send_whatsapp cfg create b t)"
    by (simp add: delayed_whatsapp_def Let_def)
  have b: "d = 0 \<longrightarrow> snd (delayed_whatsapp cfg create b d t) = snd (send_whatsapp cfg create b t)"
    by (simp add: delayed_whatsapp_def Let_def)
  have c: "fst (delayed_whatsapp cfg create b d t) = fst (send_whatsapp cfg create b t)"
    by (simp add: delayed_whatsapp_def Let_def)
  from a b c send_whatsapp_trace [of cfg create b t]
    send_whatsapp_configured [of cfg _ t _ _ create b]
    send_whatsapp_unconfigured [of cfg t create b]
  show ?thesis by blast
qed

theorem delay_semantics_witness:
  "delayed_whatsapp full_config reject ''alert'' 2 None
     = (Inl (TwilioRestException ''HTTP 401 error''),
        [Sleep 120, Create \<lparr>account_sid = ''AC1'', auth_token = ''token'', body = ''alert'',
                              from_ = ''whatsapp:+15550002'', to = ''whatsapp:+15550001''\<rparr>])
   \<and> delayed_whatsapp full_config accept ''alert'' 0 None
     = (Inr ''SM1'',
        [Create \<lparr>account_sid = ''AC1'', auth_token = ''token'', body = ''alert'',
                  from_ = ''whatsapp:+15550002'', to = ''whatsapp:+15550001''\<rparr>])"
proof -
  have 1: "delayed_whatsapp full_config reject ''alert'' 2 None
     = (Inl (TwilioRestException ''HTTP 401 error''),
        [Sleep 120, Create \<lparr>account_sid = ''AC1'', auth_token = ''token'', body = ''alert'',
                              from_ = ''whatsapp:+15550002'', to = ''whatsapp:+15550001''\<rparr>])"
    using delay_semantics [of 2 full_config reject "''alert''" None] full_config_resolves
    by (simp add: reject_def prod_eq_iff)
  have 2: "delayed_whatsapp full_config accept ''alert'' 0 None
     = (Inr ''SM1'',
        [Create \<lparr>account_sid = ''AC1'', auth_token = ''token'', body = ''alert'',
                  from_ = ''whatsapp:+15550002'', to = ''whatsapp:+15550001''\<rparr>])"
    using delay_semantics [of 0 full_config accept "''alert''" None] full_config_resolves
    by (simp add: accept_def prod_eq_iff)
  from 1 2 show ?thesis by simp
qed

text \<open>
  The claim as the specification states it, exactly one delivery attempt per call, fails
  without credentials: the dispatcher sleeps and then fails before any delivery attempt.
\<close>

theorem delay_semantics_counterexample:
  "delayed_whatsapp no_config accept ''alert'' 5 None
     = (Inl (HTTPException 500 ''Twilio credentials missing (SID/AUTH).''), [Sleep 300])"
  by (simp add: delayed_whatsapp_def send_whatsapp_def twilio_client_def no_config_def)

text \<open>
  C9, as amended. Let \<open>tok\<close> be the first token that \<open>re.findall\<close> finds in the candidate
  text. When \<open>tok\<close> has a digit, \<open>float\<close> of \<open>tok\<close> without its commas succeeds and
  \<open>fetch_price\<close> returns a price. The parse fails, with \<open>ParseFailure\<close>, exactly when \<open>tok\<close> has
  no digit, and the tokens without a digit are the runs of commas and the runs of commas
  followed by one point.
\<close>

theorem parse_failure_tokens:
  assumes "re_findall t = tok # toks"
  shows "((py_float (remove_commas tok) = None) = (\<forall>c \<in> set tok. \<not> is_digit c))
       \<and> ((\<forall>c \<in> set tok. \<not> is_digit c) =
            (\<exists>n. 0 < n \<and> (tok = replicate n (CHR '','') \<or> tok = replicate n (CHR '','') @ ''.'')))
       \<and> ((\<exists>c \<in> set tok. is_digit c) \<longrightarrow> (\<exists>p. parse_price (Some t) = Inr p))
       \<and> ((\<forall>c \<in> set tok. \<not> is_digit c) \<longrightarrow> parse_price (Some t) = Inl ParseFailure)"
proof -
  have ne: "t \<noteq> []"
    using re_findall_Cons [OF assms] by (auto simp: re_search_def)
  have p: "parse_price (Some t) =
             (case py_float (remove_commas tok) of None \<Rightarrow> Inl ParseFailure | Some p \<Rightarrow> Inr p)"
    using ne assms by (simp add: parse_price_def falsy_Some)
  have a: "(py_float (remove_commas tok) = None) = (\<forall>c \<in> set tok. \<not> is_digit c)"
    using assms by (rule py_float_token)
  have b: "(\<exists>c \<in> set tok. is_digit c) \<longrightarrow> (\<exists>p. parse_price (Some t) = Inr p)"
    using a p by (cases "py_float (remove_commas tok)") auto
  have c: "(\<forall>c \<in> set tok. \<not> is_digit c) \<longrightarrow> parse_price (Some t) = Inl ParseFailure"
    using a p by (cases "py_float (remove_commas tok)") auto
  from a no_digit_token [OF assms] b c show ?thesis by blast
qed

theorem parse_failure_tokens_witness:
  "re_findall ''$1,234.50'' = [''1,234.50'']
   \<and> (\<exists>p. parse_price (Some ''$1,234.50'') = Inr p)
   \<and> re_findall ''from ,, up'' = ['',,'']
   \<and> parse_price (Some ''from ,, up'') = Inl ParseFailure"
proof -
  have s1: "re_search ''$1,234.50'' = Some ''1,234.50''"
    by (simp add: re_search_def match_here_def char_simps)
  have r1: "re_findall ''$1,234.50'' = [''1,234.50'']"
    by (rule re_findall_single [OF s1]) (simp add: match_here_def re_search_def char_simps)
  have d1: "\<exists>c \<in> set ''1,234.50''. is_digit c"
    by (simp add: is_digit_def)
  have s2: "re_search ''from ,, up'' = Some '',,''"
    by (simp add: re_search_def match_here_def char_simps)
  have r2: "re_findall ''from ,, up'' = ['',,'']"
    by (rule re_findall_single [OF s2]) (simp add: match_here_def re_search_def char_simps)
  have d2: "\<forall>c \<in> set '',,''. \<not> is_digit c"
    by (simp add: is_digit_def)
  from parse_failure_tokens [OF r1] d1 have 1: "\<exists>p. parse_price (Some ''$1,234.50'') = Inr p"
    by blast
  from parse_failure_tokens [OF r2] d2 have 2: "parse_price (Some ''from ,, up'') = Inl ParseFailure"
    by blast
  from r1 1 r2 2 show ?thesis by simp
qed

text \<open>
  The claim as the specification states it, that the parse fails exactly for tokens
  made of commas only, fails for the token of a comma and a point.
\<close>

theorem parse_failure_tokens_counterexample:
  "re_findall '',.'' = ['',.'']
   \<and> \<not> list_all (\<lambda>c. c = CHR '','') '',.''
   \<and> parse_price (Some '',.'') = Inl ParseFailure"
proof -
  have s: "re_search '',.'' = Some '',.''"
    by (simp add: re_search_def match_here_def char_simps)
  have r: "re_findall '',.'' = ['',.'']"
    by (rule re_findall_single [OF s]) (simp add: match_here_def re_search_def char_simps)
  have "py_float (remove_commas '',.'') = None"
    by (simp add: remove_commas_def py_float_def is_digit_def)
  then have "parse_price (Some '',.'') = Inl ParseFailure"
    by (simp add: parse_price_search s)
  with r show ?thesis by simp
qed

end
